theory Spec2Isabelle
  imports Complex_Main "HOL-Library.List_Lexorder" "HOL-Library.Char_ord"
begin

section \<open>Python values\<close>

text \<open>
  Strings are lists of characters; a character stands for a code point below 256, so the
  development covers transcripts in that range. Floats are modelled as reals: rounding
  and overflow are outside the model. A missing value (pandas NaN or NaT) is \<open>None\<close> of an
  option type wherever the source can produce one.
\<close>

type_synonym series = "string \<Rightarrow> real option"

definition series_get :: "series \<Rightarrow> string \<Rightarrow> real \<Rightarrow> real" where
  "series_get features key dflt = (case features key of None \<Rightarrow> dflt | Some v \<Rightarrow> v)"

definition dict_get :: "('k \<Rightarrow> 'v option) \<Rightarrow> 'k \<Rightarrow> 'v \<Rightarrow> 'v" where
  "dict_get d key dflt = (case d key of None \<Rightarrow> dflt | Some v \<Rightarrow> v)"

definition digit_char :: "nat \<Rightarrow> char" where
  "digit_char n = ''0123456789'' ! n"

function str_nat :: "nat \<Rightarrow> string" where
  "str_nat n = (if n < 10 then [digit_char n] else str_nat (n div 10) @ [digit_char (n mod 10)])"
  by pat_completeness auto
termination
  by (relation "measure id") auto

text \<open>\<open>str(i)\<close> of a Python integer.\<close>

definition str_int :: "int \<Rightarrow> string" where
  "str_int i = (if i < 0 then CHR ''-'' # str_nat (nat (- i)) else str_nat (nat i))"

definition startswith :: "string \<Rightarrow> string \<Rightarrow> bool" where
  "startswith s p = (take (length p) s = p)"

definition endswith :: "string \<Rightarrow> string \<Rightarrow> bool" where
  "endswith s p = (length p \<le> length s \<and> drop (length s - length p) s = p)"

text \<open>\<open>s.rstrip(c)\<close> for a single character \<open>c\<close>: every trailing \<open>c\<close> is removed.\<close>

definition rstrip_char :: "string \<Rightarrow> char \<Rightarrow> string" where
  "rstrip_char s c = rev (dropWhile (\<lambda>x. x = c) (rev s))"

text \<open>\<open>sep.join(parts)\<close>.\<close>

fun join :: "string \<Rightarrow> string list \<Rightarrow> string" where
  "join sep [] = []"
| "join sep [p] = p"
| "join sep (p # q # ps) = p @ sep @ join sep (q # ps)"

text \<open>
  \<open>s.replace(old, new)\<close> for a non-empty \<open>old\<close>: the occurrences are replaced from left
  to right without overlap. (The source only calls it with two-character patterns; for an
  empty \<open>old\<close> the function below returns \<open>s\<close>, which is not what Python does.)
\<close>

function replace :: "string \<Rightarrow> string \<Rightarrow> string \<Rightarrow> string" where
  "replace old new [] = []"
| "replace old new (c # cs) =
     (if old \<noteq> [] \<and> startswith (c # cs) old
      then new @ replace old new (drop (length old) (c # cs))
      else c # replace old new cs)"
  by pat_completeness auto
termination
  by (relation "measure (\<lambda>(old, new, s). length s)") auto

section \<open>Library functions\<close>

text \<open>
  The program calls pandas and scikit-learn. Their functions are parameters of the model,
  collected in a record, so that every theorem below holds whatever these functions
  compute. \<open>to_datetime_format s fmt\<close> stands for \<open>pd.to_datetime(s, format=fmt)\<close>,
  \<open>to_datetime_dayfirst s\<close> for \<open>pd.to_datetime(s, dayfirst=True, errors='coerce')\<close>,
  \<open>fit_transform X i\<close> for row \<open>i\<close> of \<open>StandardScaler().fit_transform(X)\<close> (the scaled
  matrix has the rows of \<open>X\<close>), and \<open>kmeans_label k seed X i\<close> for
  the label that \<open>KMeans(n_clusters=k, random_state=seed, n_init=10).fit_predict(X)\<close> gives
  to sample \<open>i\<close>. A timestamp is the number of seconds since 1970-01-01 00:00, without a
  time zone.
\<close>

datatype error = ValueError string

datatype to_datetime_result = Timestamp int | NaT | Raises

record library =
  to_datetime_format :: "string \<Rightarrow> string \<Rightarrow> to_datetime_result"
  to_datetime_dayfirst :: "string \<Rightarrow> to_datetime_result"
  fit_transform :: "real list list \<Rightarrow> nat \<Rightarrow> real list"
  kmeans_label :: "nat \<Rightarrow> int \<Rightarrow> real list list \<Rightarrow> nat \<Rightarrow> int"

section \<open>Regular expressions\<close>

text \<open>
  A matcher returns, for an input, every way it can match a prefix of it: the matched
  text and the rest, in the order in which a backtracking engine tries them. The match
  that \<open>re\<close> reports is the first of the list.
\<close>

definition isspace :: "char \<Rightarrow> bool" where
  "isspace c = (c \<in> set [CHR 0x09, CHR 0x0A, CHR 0x0B, CHR 0x0C, CHR 0x0D, CHR 0x1C, CHR 0x1D,
                          CHR 0x1E, CHR 0x1F, CHR 0x20, CHR 0x85, CHR 0xA0])"

definition isdecimal :: "char \<Rightarrow> bool" where
  "isdecimal c = (c \<in> set ''0123456789'')"

text \<open>\<open>s.strip()\<close>.\<close>

definition strip :: "string \<Rightarrow> string" where
  "strip s = rev (dropWhile isspace (rev (dropWhile isspace s)))"

type_synonym matcher = "string \<Rightarrow> (string \<times> string) list"

definition re_empty :: matcher where
  "re_empty s = [([], s)]"

definition re_class :: "(char \<Rightarrow> bool) \<Rightarrow> matcher" where
  "re_class P s = (case s of [] \<Rightarrow> [] | c # cs \<Rightarrow> if P c then [([c], cs)] else [])"

definition re_char :: "char \<Rightarrow> matcher" where
  "re_char c = re_class (\<lambda>x. x = c)"

definition re_seq :: "matcher \<Rightarrow> matcher \<Rightarrow> matcher" where
  "re_seq m1 m2 s = List.bind (m1 s) (\<lambda>(a, r). map (\<lambda>(b, r'). (a @ b, r')) (m2 r))"

definition re_alt :: "matcher \<Rightarrow> matcher \<Rightarrow> matcher" where
  "re_alt m1 m2 s = m1 s @ m2 s"

text \<open>The greedy \<open>m?\<close>, \<open>m{n}\<close>, \<open>m{0,n}\<close> and \<open>m{lo,hi}\<close>.\<close>

definition re_opt :: "matcher \<Rightarrow> matcher" where
  "re_opt m = re_alt m re_empty"

primrec re_times :: "nat \<Rightarrow> matcher \<Rightarrow> matcher" where
  "re_times 0 m = re_empty"
| "re_times (Suc n) m = re_seq m (re_times n m)"

primrec re_upto :: "nat \<Rightarrow> matcher \<Rightarrow> matcher" where
  "re_upto 0 m = re_empty"
| "re_upto (Suc n) m = re_alt (re_seq m (re_upto n m)) re_empty"

definition re_range :: "nat \<Rightarrow> nat \<Rightarrow> matcher \<Rightarrow> matcher" where
  "re_range lo hi m = re_seq (re_times lo m) (re_upto (hi - lo) m)"

text \<open>The greedy \<open>[P]*\<close> and the lazy \<open>[P]*?\<close> of a character class.\<close>

fun re_star :: "(char \<Rightarrow> bool) \<Rightarrow> matcher" where
  "re_star P [] = [([], [])]"
| "re_star P (c # cs) =
     (if P c then map (\<lambda>(a, r). (c # a, r)) (re_star P cs) else []) @ [([], c # cs)]"

fun re_lazy_star :: "(char \<Rightarrow> bool) \<Rightarrow> matcher" where
  "re_lazy_star P [] = [([], [])]"
| "re_lazy_star P (c # cs) =
     ([], c # cs) # (if P c then map (\<lambda>(a, r). (c # a, r)) (re_lazy_star P cs) else [])"

definition re_plus :: "(char \<Rightarrow> bool) \<Rightarrow> matcher" where
  "re_plus P = re_seq (re_class P) (re_star P)"

text \<open>\<open>$\<close> under \<open>re.MULTILINE\<close>: at the end of the input or before a newline.\<close>

definition re_eol :: matcher where
  "re_eol s = (case s of [] \<Rightarrow> [([], [])] | c # cs \<Rightarrow> if c = CHR 0x0A then [([], s)] else [])"

text \<open>\<open>.\<close> without \<open>re.DOTALL\<close>: any character but the newline.\<close>

definition re_dot :: "char \<Rightarrow> bool" where
  "re_dot c = (c \<noteq> CHR 0x0A)"

section \<open>parser.py\<close>

text \<open>\<open>\d{1,2}/\d{1,2}/\d{2,4}|\d{4}-\d{2}-\d{2}\<close>\<close>

definition re_date :: matcher where
  "re_date =
     re_alt
       (re_seq (re_range 1 2 (re_class isdecimal))
         (re_seq (re_char CHR ''/'')
           (re_seq (re_range 1 2 (re_class isdecimal))
             (re_seq (re_char CHR ''/'') (re_range 2 4 (re_class isdecimal))))))
       (re_seq (re_times 4 (re_class isdecimal))
         (re_seq (re_char CHR ''-'')
           (re_seq (re_times 2 (re_class isdecimal))
             (re_seq (re_char CHR ''-'') (re_times 2 (re_class isdecimal))))))"

text \<open>\<open>\d{1,2}:\d{2}(?:\s?[AP]M)?\<close>\<close>

definition re_time :: matcher where
  "re_time =
     re_seq (re_range 1 2 (re_class isdecimal))
       (re_seq (re_char CHR '':'')
         (re_seq (re_times 2 (re_class isdecimal))
           (re_opt (re_seq (re_opt (re_class isspace))
              (re_seq (re_class (\<lambda>c. c = CHR ''A'' \<or> c = CHR ''P'')) (re_char CHR ''M''))))))"

text \<open>
  The pattern of \<open>parse_whatsapp_chat\<close> after its leading \<open>^\<close>, with its four groups:
  \<open>(date),?\s*(time)\s*-\s*(.*?):\s(.*)$\<close>.
\<close>

definition pattern :: "string \<Rightarrow> ((string \<times> string \<times> string \<times> string) \<times> string) list" where
  "pattern s =
     List.bind (re_date s) (\<lambda>(date_str, r1).
     List.bind (re_seq (re_opt (re_char CHR '','')) (re_star isspace) r1) (\<lambda>(sep1, r2).
     List.bind (re_time r2) (\<lambda>(time_str, r3).
     List.bind (re_seq (re_star isspace) (re_seq (re_char CHR ''-'') (re_star isspace)) r3) (\<lambda>(sep2, r4).
     List.bind (re_lazy_star re_dot r4) (\<lambda>(usr, r5).
     List.bind (re_seq (re_char CHR '':'') (re_class isspace) r5) (\<lambda>(sep3, r6).
     List.bind (re_star re_dot r6) (\<lambda>(msg, r7).
     List.bind (re_eol r7) (\<lambda>(e, r8).
       [((date_str, time_str, usr, msg), r8)]))))))))"

definition pattern_match :: "string \<Rightarrow> ((string \<times> string \<times> string \<times> string) \<times> string) option" where
  "pattern_match s = (case pattern s of [] \<Rightarrow> None | x # xs \<Rightarrow> Some x)"

text \<open>Every match consumes a non-empty prefix of the input.\<close>

definition splits :: "matcher \<Rightarrow> bool" where
  "splits m = (\<forall>s a r. (a, r) \<in> set (m s) \<longrightarrow> s = a @ r)"

definition consumes :: "matcher \<Rightarrow> bool" where
  "consumes m = (\<forall>s a r. (a, r) \<in> set (m s) \<longrightarrow> a \<noteq> [])"

lemma splits_empty: "splits re_empty"
  by (simp add: splits_def re_empty_def)

lemma splits_class: "splits (re_class P)"
  by (auto simp: splits_def re_class_def split: list.splits if_splits)

lemma splits_char: "splits (re_char c)"
  by (simp add: re_char_def splits_class)

lemma splits_seq: "splits m1 \<Longrightarrow> splits m2 \<Longrightarrow> splits (re_seq m1 m2)"
  by (fastforce simp: splits_def re_seq_def List.bind_def)

lemma splits_alt: "splits m1 \<Longrightarrow> splits m2 \<Longrightarrow> splits (re_alt m1 m2)"
  by (auto simp: splits_def re_alt_def)

lemma splits_opt: "splits m \<Longrightarrow> splits (re_opt m)"
  by (simp add: re_opt_def splits_alt splits_empty)

lemma splits_times: "splits m \<Longrightarrow> splits (re_times n m)"
  by (induction n) (simp_all add: splits_empty splits_seq)

lemma splits_upto: "splits m \<Longrightarrow> splits (re_upto n m)"
  by (induction n) (simp_all add: splits_empty splits_seq splits_alt)

lemma splits_range: "splits m \<Longrightarrow> splits (re_range lo hi m)"
  by (simp add: re_range_def splits_seq splits_times splits_upto)

lemma star_splits: "(a, r) \<in> set (re_star P s) \<Longrightarrow> s = a @ r"
  by (induction s arbitrary: a r) (auto split: if_splits)

lemma lazy_star_splits: "(a, r) \<in> set (re_lazy_star P s) \<Longrightarrow> s = a @ r"
  by (induction s arbitrary: a r) (auto split: if_splits)

lemma splits_star: "splits (re_star P)"
  using star_splits by (auto simp: splits_def)

lemma splits_lazy_star: "splits (re_lazy_star P)"
  using lazy_star_splits by (auto simp: splits_def)

lemma splits_eol: "splits re_eol"
  by (auto simp: splits_def re_eol_def split: list.splits if_splits)

lemma consumes_class: "consumes (re_class P)"
  by (auto simp: consumes_def re_class_def split: list.splits if_splits)

lemma consumes_seq: "consumes m1 \<Longrightarrow> consumes (re_seq m1 m2)"
  by (fastforce simp: consumes_def re_seq_def List.bind_def)

lemma consumes_alt: "consumes m1 \<Longrightarrow> consumes m2 \<Longrightarrow> consumes (re_alt m1 m2)"
  unfolding consumes_def re_alt_def by (metis Un_iff set_append)

lemma consumes_times: "consumes m \<Longrightarrow> consumes (re_times (Suc n) m)"
  by (simp add: consumes_seq)

lemma splits_date: "splits re_date"
  unfolding re_date_def
  by (intro splits_alt splits_seq splits_range splits_times splits_char splits_class)

lemma consumes_date: "consumes re_date"
  unfolding re_date_def re_range_def
  by (intro consumes_alt consumes_seq)
     (simp_all add: consumes_times consumes_class eval_nat_numeral del: re_times.simps)

lemma splits_time: "splits re_time"
  unfolding re_time_def
  by (intro splits_alt splits_seq splits_range splits_times splits_char splits_class splits_opt)

lemma pattern_rest:
  assumes "(g, rest) \<in> set (pattern s)"
  shows "\<exists>a. s = a @ rest \<and> a \<noteq> []"
proof -
  from assms obtain date_str r1 sep1 r2 time_str r3 sep2 r4 usr r5 sep3 r6 msg r7 e where
    1: "(date_str, r1) \<in> set (re_date s)" and
    2: "(sep1, r2) \<in> set (re_seq (re_opt (re_char CHR '','')) (re_star isspace) r1)" and
    3: "(time_str, r3) \<in> set (re_time r2)" and
    4: "(sep2, r4) \<in> set (re_seq (re_star isspace) (re_seq (re_char CHR ''-'') (re_star isspace)) r3)" and
    5: "(usr, r5) \<in> set (re_lazy_star re_dot r4)" and
    6: "(sep3, r6) \<in> set (re_seq (re_char CHR '':'') (re_class isspace) r5)" and
    7: "(msg, r7) \<in> set (re_star re_dot r6)" and
    8: "(e, rest) \<in> set (re_eol r7)"
    unfolding pattern_def List.bind_def by auto
  have s2: "splits (re_seq (re_opt (re_char CHR '','')) (re_star isspace))"
    by (intro splits_seq splits_opt splits_char splits_star)
  have s4: "splits (re_seq (re_star isspace) (re_seq (re_char CHR ''-'') (re_star isspace)))"
    by (intro splits_seq splits_char splits_star)
  have s6: "splits (re_seq (re_char CHR '':'') (re_class isspace))"
    by (intro splits_seq splits_char splits_class)
  have "s = date_str @ r1"
    using 1 splits_date unfolding splits_def by blast
  moreover have "date_str \<noteq> []"
    using 1 consumes_date unfolding consumes_def by blast
  moreover have "r1 = sep1 @ r2" using 2 s2 by (auto simp: splits_def)
  moreover have "r2 = time_str @ r3" using 3 splits_time by (auto simp: splits_def)
  moreover have "r3 = sep2 @ r4" using 4 s4 by (auto simp: splits_def)
  moreover have "r4 = usr @ r5" using 5 by (rule lazy_star_splits)
  moreover have "r5 = sep3 @ r6" using 6 s6 by (auto simp: splits_def)
  moreover have "r6 = msg @ r7" using 7 by (rule star_splits)
  moreover have "r7 = e @ rest" using 8 splits_eol by (auto simp: splits_def)
  ultimately show ?thesis by auto
qed

lemma pattern_match_rest:
  "pattern_match s = Some (g, rest) \<Longrightarrow> length rest < length s"
proof -
  assume "pattern_match s = Some (g, rest)"
  then have "(g, rest) \<in> set (pattern s)"
    by (auto simp: pattern_match_def split: list.splits)
  then obtain a where "s = a @ rest" "a \<noteq> []"
    using pattern_rest by blast
  then show ?thesis by simp
qed

text \<open>
  \<open>pattern.findall(content)\<close> under \<open>re.MULTILINE\<close>: the scan tries each position that
  starts a line (the flag says whether the current one does) and goes on after a match.
\<close>

function findall :: "bool \<Rightarrow> string \<Rightarrow> (string \<times> string \<times> string \<times> string) list" where
  "findall bol [] = []"
| "findall bol (c # cs) =
     (case (if bol then pattern_match (c # cs) else None) of
        Some (groups, rest) \<Rightarrow>
          groups # findall (last (take (length (c # cs) - length rest) (c # cs)) = CHR 0x0A) rest
      | None \<Rightarrow> findall (c = CHR 0x0A) cs)"
  by pat_completeness auto
termination
proof (relation "measure (\<lambda>(bol, s). length s)")
  show "wf (measure (\<lambda>(bol, s). length s))" by simp
next
  fix bol c cs x2 x y
  assume "(if bol then pattern_match (c # cs) else None) = Some x2" and "(x, y) = x2"
  then have "pattern_match (c # cs) = Some (x, y)"
    by (auto split: if_splits)
  then show "((last (take (length (c # cs) - length y) (c # cs)) = CHR 0x0A, y), bol, c # cs)
      \<in> measure (\<lambda>(bol, s). length s)"
    using pattern_match_rest by fastforce
next
  fix bol c cs
  show "((c = CHR 0x0A, cs), bol, c # cs) \<in> measure (\<lambda>(bol, s). length s)" by simp
qed

definition date_formats :: "string list" where
  "date_formats =
     [''%d/%m/%Y, %I:%M %p'',
      ''%d/%m/%y, %I:%M %p'',
      ''%m/%d/%Y, %I:%M %p'',
      ''%m/%d/%y, %I:%M %p'',
      ''%Y-%m-%d, %H:%M'',
      ''%d/%m/%Y, %H:%M'',
      ''%m/%d/%Y, %H:%M'']"

text \<open>
  The loop over \<open>date_formats\<close>: the first call that does not raise gives the timestamp
  (\<open>break\<close>); \<open>None\<close> when every call raises.
\<close>

fun try_formats :: "library \<Rightarrow> string \<Rightarrow> string list \<Rightarrow> to_datetime_result option" where
  "try_formats lib datetime_str [] = None"
| "try_formats lib datetime_str (fmt # fmts) =
     (case to_datetime_format lib datetime_str fmt of
        Raises \<Rightarrow> try_formats lib datetime_str fmts
      | t \<Rightarrow> Some t)"

record chat_row =
  timestamp :: int
  user :: string
  message :: string

text \<open>
  The body of the loop over the matches: the record appended for a match, or \<open>None\<close> when
  the loop goes on without appending (\<open>continue\<close>, or \<open>pd.notna\<close> fails).
\<close>

definition parse_match :: "library \<Rightarrow> string \<times> string \<times> string \<times> string \<Rightarrow> chat_row option" where
  "parse_match lib m =
     (case m of (date_str, time_str, usr, msg) \<Rightarrow>
        let datetime_str = strip (date_str @ '', '' @ time_str);
            timestamp = (case try_formats lib datetime_str date_formats of
                           None \<Rightarrow> to_datetime_dayfirst lib datetime_str
                         | Some t \<Rightarrow> t)
        in (case timestamp of
              Timestamp t \<Rightarrow> Some \<lparr>timestamp = t, user = strip usr, message = strip msg\<rparr>
            | NaT \<Rightarrow> None
            | Raises \<Rightarrow> None))"

definition parse_messages :: "library \<Rightarrow> string \<Rightarrow> chat_row list" where
  "parse_messages lib content = List.map_filter (parse_match lib) (findall True content)"

definition parse_whatsapp_chat :: "library \<Rightarrow> string \<Rightarrow> error + chat_row list" where
  "parse_whatsapp_chat lib content =
     (let df = parse_messages lib content
      in if df = []
         then Inl (ValueError (''No messages found in chat file. Please check the file format. '' @
                ''Supported formats: DD/MM/YYYY or MM/DD/YYYY with AM/PM, or YYYY-MM-DD with 24-hour time.''))
         else Inr df)"

section \<open>An instance of the library\<close>

text \<open>
  To evaluate the program on concrete transcripts, the library record is instantiated.
  The strict parse follows the regular expressions that \<open>strptime\<close> documents for the
  directives used by \<open>date_formats\<close>: the first match of the format's expression must
  cover the whole input, the date must exist, and the result must fit a nanosecond
  timestamp. The lenient parse, the scaler and k-means of the instance are stand-ins
  (no result, the identity, sample \<open>i\<close> in cluster \<open>i mod k\<close>): no theorem below depends on
  what they compute.
\<close>

definition re_in :: "string \<Rightarrow> matcher" where
  "re_in cs = re_class (\<lambda>c. c \<in> set cs)"

definition directive :: "char \<Rightarrow> matcher" where
  "directive d =
     (if d = CHR ''d'' then
        re_alt (re_seq (re_char CHR ''3'') (re_in ''01''))
       (re_alt (re_seq (re_in ''12'') (re_class isdecimal))
       (re_alt (re_seq (re_char CHR ''0'') (re_in ''123456789''))
       (re_alt (re_in ''123456789'')
               (re_seq (re_char CHR '' '') (re_in ''123456789'')))))
      else if d = CHR ''m'' \<or> d = CHR ''I'' then
        re_alt (re_seq (re_char CHR ''1'') (re_in ''012''))
       (re_alt (re_seq (re_char CHR ''0'') (re_in ''123456789''))
               (re_in ''123456789''))
      else if d = CHR ''H'' then
        re_alt (re_seq (re_char CHR ''2'') (re_in ''0123''))
       (re_alt (re_seq (re_in ''01'') (re_class isdecimal))
               (re_class isdecimal))
      else if d = CHR ''M'' then
        re_alt (re_seq (re_in ''012345'') (re_class isdecimal)) (re_class isdecimal)
      else if d = CHR ''y'' then re_times 2 (re_class isdecimal)
      else if d = CHR ''Y'' then re_times 4 (re_class isdecimal)
      else if d = CHR ''p'' then re_seq (re_in ''aApP'') (re_in ''mM'')
      else (\<lambda>s. []))"

definition literal :: "char \<Rightarrow> matcher" where
  "literal c = (if isspace c then re_plus isspace else re_char c)"

fun format_regex :: "string \<Rightarrow> (char option \<times> matcher) list" where
  "format_regex [] = []"
| "format_regex [c] = [(None, literal c)]"
| "format_regex (c # d # fmt) =
     (if c = CHR ''%'' then (Some d, directive d) # format_regex fmt
      else (None, literal c) # format_regex (d # fmt))"

primrec run_regex :: "(char option \<times> matcher) list \<Rightarrow> string \<Rightarrow> ((char \<times> string) list \<times> string) list" where
  "run_regex [] s = [([], s)]"
| "run_regex (dm # ms) s =
     List.bind (snd dm s) (\<lambda>(a, r).
       map (\<lambda>(found, r'). ((case fst dm of None \<Rightarrow> found | Some d \<Rightarrow> (d, a) # found), r'))
         (run_regex ms r))"

definition strptime :: "string \<Rightarrow> string \<Rightarrow> (char \<times> string) list option" where
  "strptime s fmt =
     (case run_regex (format_regex fmt) s of
        [] \<Rightarrow> None
      | (found, rest) # others \<Rightarrow> if rest = [] then Some found else None)"

definition nat_of_digits :: "string \<Rightarrow> nat" where
  "nat_of_digits s = foldl (\<lambda>n c. 10 * n + (of_char c - 48)) 0 (strip s)"

definition is_leap :: "nat \<Rightarrow> bool" where
  "is_leap y = (y mod 4 = 0 \<and> (y mod 100 \<noteq> 0 \<or> y mod 400 = 0))"

definition days_in_month :: "nat \<Rightarrow> nat \<Rightarrow> nat" where
  "days_in_month y m =
     (if m = 2 then (if is_leap y then 29 else 28)
      else if m \<in> set [4, 6, 9, 11] then 30 else 31)"

text \<open>The number of days from 1970-01-01 to a date of the proleptic Gregorian calendar.\<close>

definition days_from_civil :: "int \<Rightarrow> int \<Rightarrow> int \<Rightarrow> int" where
  "days_from_civil y m d =
     (let y' = (if m \<le> 2 then y - 1 else y);
          era = y' div 400;
          yoe = y' - era * 400;
          doy = (153 * (if m > 2 then m - 3 else m + 9) + 2) div 5 + d - 1;
          doe = yoe * 365 + yoe div 4 - yoe div 100 + doy
      in era * 146097 + doe - 719468)"

definition strict_to_datetime :: "string \<Rightarrow> string \<Rightarrow> to_datetime_result" where
  "strict_to_datetime s fmt =
     (case strptime s fmt of
        None \<Rightarrow> Raises
      | Some found \<Rightarrow>
          let year = (case map_of found CHR ''Y'' of
                        Some y \<Rightarrow> nat_of_digits y
                      | None \<Rightarrow> (case map_of found CHR ''y'' of
                                   Some y \<Rightarrow> (if nat_of_digits y < 69 then 2000 + nat_of_digits y
                                              else 1900 + nat_of_digits y)
                                 | None \<Rightarrow> 1900));
              month = (case map_of found CHR ''m'' of Some m \<Rightarrow> nat_of_digits m | None \<Rightarrow> 1);
              day = (case map_of found CHR ''d'' of Some d \<Rightarrow> nat_of_digits d | None \<Rightarrow> 1);
              pm = (case map_of found CHR ''p'' of Some p \<Rightarrow> hd p \<in> set ''pP'' | None \<Rightarrow> False);
              hour = (case map_of found CHR ''H'' of
                        Some h \<Rightarrow> nat_of_digits h
                      | None \<Rightarrow> (case map_of found CHR ''I'' of
                                   Some h \<Rightarrow> nat_of_digits h mod 12 + (if pm then 12 else 0)
                                 | None \<Rightarrow> 0));
              minute = (case map_of found CHR ''M'' of Some m \<Rightarrow> nat_of_digits m | None \<Rightarrow> 0);
              t = days_from_civil (int year) (int month) (int day) * 86400
                    + int hour * 3600 + int minute * 60
          in if days_in_month year month < day then Raises
             else if t < - 9223372036 \<or> 9223372036 < t then Raises
             else Timestamp t)"

definition example_library :: library where
  "example_library =
     \<lparr>to_datetime_format = strict_to_datetime,
      to_datetime_dayfirst = (\<lambda>s. NaT),
      fit_transform = (\<lambda>X i. X ! i),
      kmeans_label = (\<lambda>k seed X i. int (i mod k))\<rparr>"

section \<open>Data frames\<close>

text \<open>
  A table with one row per user: the names of its columns, and for each user (the key
  column \<open>user\<close>) the cells of the row in the order of the columns. Before the final
  \<open>fillna(0)\<close> a cell is a \<open>real option\<close>, \<open>None\<close> for NaN.
\<close>

record 'c frame =
  columns :: "string list"
  rows :: "(string \<times> 'c list) list"

definition index :: "'c frame \<Rightarrow> string list" where
  "index fr = map fst (rows fr)"

text \<open>\<open>df.groupby('user')\<close>: the groups in the order of their sorted keys.\<close>

definition groupby_user :: "chat_row list \<Rightarrow> (string \<times> chat_row list) list" where
  "groupby_user df = map (\<lambda>u. (u, filter (\<lambda>r. user r = u) df)) (sort (remdups (map user df)))"

definition groupby_size :: "chat_row list \<Rightarrow> (string \<times> real) list" where
  "groupby_size df = map (\<lambda>(u, x). (u, real (length x))) (groupby_user df)"

text \<open>\<open>mean\<close> and \<open>median\<close> of a column: NaN for an empty one; \<open>mean\<close> skips NaN cells.\<close>

definition mean :: "real list \<Rightarrow> real option" where
  "mean xs = (if xs = [] then None else Some (sum_list xs / real (length xs)))"

definition mean_skipna :: "real option list \<Rightarrow> real option" where
  "mean_skipna cs = mean (List.map_filter id cs)"

definition median :: "real list \<Rightarrow> real option" where
  "median xs =
     (let s = sort xs; n = length s
      in if n = 0 then None
         else if odd n then Some (s ! (n div 2))
         else Some ((s ! (n div 2 - 1) + s ! (n div 2)) / 2))"

text \<open>\<open>Series.diff()\<close>: NaT for the first row.\<close>

fun diff :: "int list \<Rightarrow> int option list" where
  "diff [] = []"
| "diff (x # xs) = None # map (\<lambda>(a, b). Some (b - a)) (zip (x # xs) xs)"

definition fillna0 :: "real option \<Rightarrow> real option" where
  "fillna0 c = (case c of None \<Rightarrow> Some 0 | Some x \<Rightarrow> Some x)"

definition cell_div :: "real option \<Rightarrow> real option \<Rightarrow> real option" where
  "cell_div a b = (case (a, b) of (Some x, Some y) \<Rightarrow> Some (x / y) | _ \<Rightarrow> None)"

text \<open>
  The quotient of two series: the index is the sorted union of the two, and the quotient is
  NaN where a key is missing on either side.
\<close>

definition series_div :: "(string \<times> real) list \<Rightarrow> (string \<times> real) list \<Rightarrow> (string \<times> real option) list" where
  "series_div a b =
     map (\<lambda>k. (k, cell_div (map_of a k) (map_of b k))) (sort (remdups (map fst a @ map fst b)))"

text \<open>
  \<open>left.merge(right, on='user', how=...)\<close> for tables whose keys are unique: a left merge
  keeps the keys of the left table in their order, an outer merge has the sorted union of
  the keys; the cells of a table that lacks a key are NaN.
\<close>

datatype how = Left | Outer

definition cells_of :: "'c option frame \<Rightarrow> string \<Rightarrow> 'c option list" where
  "cells_of fr k =
     (case map_of (rows fr) k of
        Some cs \<Rightarrow> cs
      | None \<Rightarrow> replicate (length (columns fr)) None)"

definition merge :: "how \<Rightarrow> 'c option frame \<Rightarrow> 'c option frame \<Rightarrow> 'c option frame" where
  "merge h l r =
     \<lparr>columns = columns l @ columns r,
      rows = map (\<lambda>k. (k, cells_of l k @ cells_of r k))
               (case h of Left \<Rightarrow> index l | Outer \<Rightarrow> sort (remdups (index l @ index r)))\<rparr>"

text \<open>\<open>df.fillna(0)\<close> on a whole table: no cell is missing afterwards.\<close>

definition fillna_frame :: "real option frame \<Rightarrow> real frame" where
  "fillna_frame fr =
     \<lparr>columns = columns fr,
      rows = map (\<lambda>(u, cs). (u, map (\<lambda>c. case c of None \<Rightarrow> 0 | Some x \<Rightarrow> x) cs)) (rows fr)\<rparr>"

section \<open>features.py\<close>

definition str_len :: "chat_row \<Rightarrow> real" where
  "str_len r = real (length (message r))"

definition calculate_message_length_features :: "chat_row list \<Rightarrow> real option frame" where
  "calculate_message_length_features df =
     \<lparr>columns = [''avg_length'', ''median_length'', ''total_chars''],
      rows = map (\<lambda>(u, x). (u, [mean (map str_len x), median (map str_len x),
                                 Some (sum_list (map str_len x))]))
               (groupby_user df)\<rparr>"

definition hour :: "int \<Rightarrow> int" where
  "hour t = (t div 3600) mod 24"

definition date :: "int \<Rightarrow> int" where
  "date t = t div 86400"

definition calculate_temporal_features :: "chat_row list \<Rightarrow> real option frame" where
  "calculate_temporal_features df =
     (let messages_per_day =
            map (\<lambda>(u, x). (u, map (\<lambda>d. real (length (filter (\<lambda>r. date (timestamp r) = d) x)))
                                 (sort (remdups (map (\<lambda>r. date (timestamp r)) x)))))
              (groupby_user df);
          avg_messages_per_day =
            \<lparr>columns = [''messages_per_day''],
             rows = map (\<lambda>(u, daily_count). (u, [mean daily_count])) messages_per_day\<rparr>;
          df_sorted = sort_key timestamp df;
          avg_response_time =
            \<lparr>columns = [''avg_response_time_hours''],
             rows = map (\<lambda>(u, x).
                      (u, [fillna0 (map_option (\<lambda>s. s / 3600)
                             (mean_skipna (map (map_option real_of_int) (diff (map timestamp x)))))]))
                    (groupby_user df_sorted)\<rparr>;
          night_mask = (\<lambda>r. hour (timestamp r) \<ge> 22 \<or> hour (timestamp r) < 6);
          night_activity =
            \<lparr>columns = [''night_activity_ratio''],
             rows = map (\<lambda>(u, c). (u, [fillna0 c]))
                      (series_div (groupby_size (filter night_mask df)) (groupby_size df))\<rparr>
      in merge Left (merge Left avg_messages_per_day avg_response_time) night_activity)"

text \<open>
  The emoji class of \<open>calculate_emotional_features\<close>, by code point, and the number of
  matches of its \<open>[...]+\<close>: the maximal runs of such characters.
\<close>

definition emoji_char :: "char \<Rightarrow> bool" where
  "emoji_char c =
     (let n = (of_char c :: nat)
      in (0x1F600 \<le> n \<and> n \<le> 0x1F64F) \<or> (0x1F300 \<le> n \<and> n \<le> 0x1F5FF)
       \<or> (0x1F680 \<le> n \<and> n \<le> 0x1F6FF) \<or> (0x1F1E0 \<le> n \<and> n \<le> 0x1F1FF)
       \<or> (0x2702 \<le> n \<and> n \<le> 0x27B0) \<or> (0x24C2 \<le> n \<and> n \<le> 0x1F251))"

fun count_runs :: "(char \<Rightarrow> bool) \<Rightarrow> bool \<Rightarrow> string \<Rightarrow> nat" where
  "count_runs P inside [] = 0"
| "count_runs P inside (c # cs) =
     (if P c \<and> \<not> inside then Suc (count_runs P True cs) else count_runs P (P c) cs)"

definition isupper :: "char \<Rightarrow> bool" where
  "isupper c =
     (let n = (of_char c :: nat)
      in (0x41 \<le> n \<and> n \<le> 0x5A) \<or> (0xC0 \<le> n \<and> n \<le> 0xD6) \<or> (0xD8 \<le> n \<and> n \<le> 0xDE))"

definition str_count :: "char \<Rightarrow> string \<Rightarrow> real" where
  "str_count c s = real (length (filter (\<lambda>x. x = c) s))"

definition calculate_emotional_features :: "chat_row list \<Rightarrow> real option frame" where
  "calculate_emotional_features df =
     (let exclamation_count = (\<lambda>r. str_count CHR ''!'' (message r));
          question_count = (\<lambda>r. str_count CHR ''?'' (message r));
          emoji_count = (\<lambda>r. real (count_runs emoji_char False (message r)));
          uppercase_ratio = (\<lambda>r. real (length (filter isupper (message r)))
                                   / real (max (length (message r)) 1))
      in \<lparr>columns = [''avg_exclamations'', ''avg_questions'', ''avg_emojis'', ''uppercase_ratio''],
          rows = map (\<lambda>(u, x). (u, [mean (map exclamation_count x), mean (map question_count x),
                                     mean (map emoji_count x), mean (map uppercase_ratio x)]))
                   (groupby_user df)\<rparr>)"

text \<open>
  \<open>url_pattern.search(x)\<close> as a truth value: some position starts \<open>http\<close>, an optional
  \<open>s\<close>, \<open>://\<close> and one unit of the repeated group (the repetition \<open>+\<close> matches as soon as
  one unit does).
\<close>

definition re_str :: "string \<Rightarrow> matcher" where
  "re_str p = foldr (\<lambda>c m. re_seq (re_char c) m) p re_empty"

definition url_unit :: matcher where
  "url_unit =
     re_alt (re_class (\<lambda>c. (CHR ''a'' \<le> c \<and> c \<le> CHR ''z'') \<or> (CHR ''A'' \<le> c \<and> c \<le> CHR ''Z'')))
    (re_alt (re_class (\<lambda>c. CHR ''0'' \<le> c \<and> c \<le> CHR ''9''))
    (re_alt (re_class (\<lambda>c. (CHR ''$'' \<le> c \<and> c \<le> CHR ''_'') \<or> c \<in> set ''@.&+''))
    (re_alt (re_class (\<lambda>c. c \<in> set [CHR ''!'', CHR ''*'', CHR 0x5C, CHR ''('', CHR '')'', CHR '','']))
            (re_seq (re_char CHR ''%'')
              (re_times 2 (re_class (\<lambda>c. c \<in> set ''0123456789abcdefABCDEF'')))))))"

definition url_pattern :: matcher where
  "url_pattern = re_seq (re_str ''http'') (re_seq (re_opt (re_char CHR ''s''))
                   (re_seq (re_str ''://'') url_unit))"

fun re_search :: "matcher \<Rightarrow> string \<Rightarrow> bool" where
  "re_search m [] = (m [] \<noteq> [])"
| "re_search m (c # cs) = (m (c # cs) \<noteq> [] \<or> re_search m cs)"

definition calculate_link_sharing_features :: "chat_row list \<Rightarrow> real option frame" where
  "calculate_link_sharing_features df =
     (let has_link = (\<lambda>r. if re_search url_pattern (message r) then 1 else (0::real))
      in \<lparr>columns = [''total_links'', ''link_sharing_ratio''],
          rows = map (\<lambda>(u, x). (u, [Some (sum_list (map has_link x)), mean (map has_link x)]))
                   (groupby_user df)\<rparr>)"

text \<open>
  \<open>is_conversation_start\<close> of the rows sorted by time: the gap to the row before exceeds
  one hour (false for the NaT of the first row), or the row is the first.
\<close>

definition is_conversation_start :: "chat_row list \<Rightarrow> bool list" where
  "is_conversation_start df_sorted =
     map (\<lambda>(i, time_diff). (case time_diff of None \<Rightarrow> False | Some d \<Rightarrow> d > 3600) \<or> i = 0)
       (zip [0..<length df_sorted] (diff (map timestamp df_sorted)))"

definition calculate_conversation_initiation_features :: "chat_row list \<Rightarrow> real option frame" where
  "calculate_conversation_initiation_features df =
     (let df_sorted = sort_key timestamp df;
          starts = map fst (filter snd (zip df_sorted (is_conversation_start df_sorted)));
          initiations =
            \<lparr>columns = [''initiations''],
             rows = map (\<lambda>(u, n). (u, [Some n])) (groupby_size starts)\<rparr>;
          total_messages =
            \<lparr>columns = [''total_messages''],
             rows = map (\<lambda>(u, n). (u, [Some n])) (groupby_size df)\<rparr>;
          initiation_features = merge Left total_messages initiations
      in \<lparr>columns = columns initiation_features @ [''initiation_ratio''],
          rows = map (\<lambda>(u, cs). (u, [cs ! 0, fillna0 (cs ! 1), cell_div (fillna0 (cs ! 1)) (cs ! 0)]))
                   (rows initiation_features)\<rparr>)"

definition merged_features :: "chat_row list \<Rightarrow> real option frame" where
  "merged_features df =
     (let length_features = calculate_message_length_features df;
          temporal_features = calculate_temporal_features df;
          emotional_features = calculate_emotional_features df;
          link_features = calculate_link_sharing_features df;
          initiation_features = calculate_conversation_initiation_features df
      in merge Outer (merge Outer (merge Outer (merge Outer length_features temporal_features)
           emotional_features) link_features) initiation_features)"

definition extract_all_features :: "chat_row list \<Rightarrow> real frame" where
  "extract_all_features df = fillna_frame (merged_features df)"

section \<open>clustering.py\<close>

text \<open>
  From here on a row of the table is a record: the user, the numeric feature cells in the
  order of the table's columns, and the columns that clustering, profiling and the report
  add.
\<close>

record author_row =
  author :: string
  cells :: "real list"
  cluster :: int

record profiled_row = author_row +
  influence_score :: real
  behavior_profile :: string

record report_row = profiled_row +
  cluster_name :: string

definition feature_columns :: "string list" where
  "feature_columns =
     [''avg_length'', ''median_length'',
      ''messages_per_day'', ''avg_response_time_hours'', ''night_activity_ratio'',
      ''avg_exclamations'', ''avg_questions'', ''avg_emojis'', ''uppercase_ratio'',
      ''link_sharing_ratio'', ''initiation_ratio'']"

definition prepare_features_for_clustering :: "library \<Rightarrow> real frame \<Rightarrow> error + real list list" where
  "prepare_features_for_clustering lib features_df =
     (let available_columns = filter (\<lambda>col. col \<in> set (columns features_df)) feature_columns
      in if available_columns = []
         then Inl (ValueError ''No valid feature columns found for clustering'')
         else let X = map (\<lambda>(u, cs). map (\<lambda>col. series_get (map_of (zip (columns features_df) cs)) col 0)
                                         available_columns)
                        (rows features_df)
              in Inr (map (fit_transform lib X) [0..<length X]))"

text \<open>
  Modelled from the spec: \<open>KMeans(...).fit_predict\<close> belongs to scikit-learn and is not among
  the sources. The spec says that "if \<open>k\<close> exceeds the number of distinct authors, clustering
  fails"; the samples are the rows of the feature table. Otherwise every sample gets the
  label the library chooses.
\<close>

definition fit_predict :: "library \<Rightarrow> nat \<Rightarrow> int \<Rightarrow> real list list \<Rightarrow> error + int list" where
  "fit_predict lib n_clusters random_state X =
     (if length X < n_clusters
      then Inl (ValueError ''n_samples should be >= n_clusters'')
      else Inr (map (kmeans_label lib n_clusters random_state X) [0..<length X]))"

definition perform_clustering :: "library \<Rightarrow> real list list \<Rightarrow> nat \<Rightarrow> int \<Rightarrow> error + int list" where
  "perform_clustering lib scaled_features n_clusters random_state =
     fit_predict lib n_clusters random_state scaled_features"

definition assign_clusters :: "library \<Rightarrow> real frame \<Rightarrow> nat \<Rightarrow> int \<Rightarrow> error + author_row list" where
  "assign_clusters lib features_df n_clusters random_state =
     (case prepare_features_for_clustering lib features_df of
        Inl e \<Rightarrow> Inl e
      | Inr scaled_features \<Rightarrow>
          (case perform_clustering lib scaled_features n_clusters random_state of
             Inl e \<Rightarrow> Inl e
           | Inr cluster_labels \<Rightarrow>
               Inr (map (\<lambda>((u, cs), label). \<lparr>author = u, cells = cs, cluster = label\<rparr>)
                      (zip (rows features_df) cluster_labels))))"

section \<open>profiling.py\<close>

definition DEFAULT_CLUSTER_NAMES :: "int \<Rightarrow> string option" where
  "DEFAULT_CLUSTER_NAMES = map_of
     [(0, ''Regular Participants''),
      (1, ''Active Conversationalists''),
      (2, ''Information Broadcasters''),
      (3, ''Silent Observers''),
      (4, ''Night Owls'')]"

definition get_cluster_name :: "int \<Rightarrow> (int \<Rightarrow> string option) option \<Rightarrow> string" where
  "get_cluster_name cluster_id cluster_names =
     (case cluster_names of
        Some names \<Rightarrow> dict_get names cluster_id (''Cluster '' @ str_int cluster_id)
      | None \<Rightarrow> dict_get DEFAULT_CLUSTER_NAMES cluster_id (''Cluster '' @ str_int cluster_id))"

definition calculate_influence_score :: "series \<Rightarrow> real" where
  "calculate_influence_score features =
     (let messages_per_day = series_get features ''messages_per_day'' 0;
          initiation_ratio = series_get features ''initiation_ratio'' 0;
          avg_response_time = series_get features ''avg_response_time_hours'' 24;
          activity_score = min (messages_per_day / 5) 1;
          response_score = 1 - min (avg_response_time / 24) 1;
          initiation_score = min (initiation_ratio * 10) 1;
          influence = activity_score * 0.4 + response_score * 0.3 + initiation_score * 0.3
      in min (max influence 0) 1)"

definition generate_behavior_profile :: "series \<Rightarrow> int \<Rightarrow> string" where
  "generate_behavior_profile features cluster_id =
     (let cluster_name = get_cluster_name cluster_id None;
          parts0 = [''This user belongs to the '' @ [CHR 0x27] @ cluster_name @ [CHR 0x27] @ '' group.''];
          messages_per_day = series_get features ''messages_per_day'' 0;
          total_messages = series_get features ''total_messages'' 0;
          activity_level =
            (if messages_per_day \<ge> 4 \<or> total_messages \<ge> 500 then ''highly active''
             else if messages_per_day \<ge> 2 \<or> total_messages \<ge> 100 then ''moderately active''
             else ''low activity'');
          parts1 = parts0 @ [''This user is '' @ activity_level @ '',''];
          avg_length = series_get features ''avg_length'' 0;
          parts2 = parts1 @
            [if avg_length \<ge> 100 then ''writes long, detailed messages,''
             else ''prefers short messages,''];
          avg_emojis = series_get features ''avg_emojis'' 0;
          avg_exclamations = series_get features ''avg_exclamations'' 0;
          uppercase_ratio = series_get features ''uppercase_ratio'' 0;
          emotional_score = avg_emojis + avg_exclamations * 0.5 + uppercase_ratio * 10;
          parts3 = parts2 @
            [if emotional_score \<ge> 2 then ''emotionally expressive,''
             else ''emotionally reserved,''];
          avg_response_time = series_get features ''avg_response_time_hours'' 24;
          parts4 = parts3 @
            [if avg_response_time < 2 then ''responds quickly,'' else ''responds slowly,''];
          link_sharing_ratio = series_get features ''link_sharing_ratio'' 0;
          parts5 = (if link_sharing_ratio > 0.1
                    then parts4 @ [''often shares links or resources,''] else parts4);
          night_activity = series_get features ''night_activity_ratio'' 0;
          parts6 = (if night_activity > 0.3
                    then parts5 @ [''more active at night,''] else parts5);
          initiation_ratio = series_get features ''initiation_ratio'' 0;
          influence_score = calculate_influence_score features;
          parts7 =
            (if initiation_ratio > 0.1 \<or> influence_score > 0.95
             then parts6 @ [''frequently initiates conversations and influences group flow.'']
             else if endswith (last parts6) '',''
             then butlast parts6 @ [rstrip_char (last parts6) CHR '','' @ ''.'']
             else parts6 @ [''.'']);
          profile = join '' '' parts7
      in replace '',.'' ''.'' (replace ''..'' ''.'' (replace '' ,'' '','' profile)))"

text \<open>
  The row that \<open>DataFrame.apply(..., axis=1)\<close> hands to the function, as a series: the
  feature columns and the cluster label.
\<close>

definition row_series :: "string list \<Rightarrow> 'a author_row_scheme \<Rightarrow> series" where
  "row_series cols r = map_of (zip cols (cells r) @ [(''cluster'', real_of_int (cluster r))])"

definition generate_profiles :: "string list \<Rightarrow> author_row list \<Rightarrow> profiled_row list" where
  "generate_profiles cols features_df =
     map (\<lambda>r. \<lparr>author = author r, cells = cells r, cluster = cluster r,
                influence_score = calculate_influence_score (row_series cols r),
                behavior_profile = generate_behavior_profile
                  ((row_series cols r)(''influence_score'' \<mapsto> calculate_influence_score (row_series cols r)))
                  (cluster r)\<rparr>)
       features_df"

section \<open>main.py\<close>

record summary_row =
  summary_cluster :: int
  summary_cluster_name :: string
  user_count :: nat
  avg_messages_per_day :: "real option"
  avg_influence_score :: "real option"

text \<open>\<open>round(2)\<close>: to two decimals, a tie going to the even neighbour.\<close>

definition round2 :: "real \<Rightarrow> real" where
  "round2 x =
     (let y = x * 100; f = \<lfloor>y\<rfloor>
      in real_of_int (if y - real_of_int f < 1 / 2 then f
                      else if y - real_of_int f > 1 / 2 then f + 1
                      else if even f then f else f + 1) / 100)"

text \<open>
  \<open>analyze_chat\<close> without the files it writes through \<open>generate_reports\<close>: the table it
  returns, or the error that ends it.
\<close>

definition analyze_chat :: "library \<Rightarrow> string \<Rightarrow> nat \<Rightarrow> int \<Rightarrow> error + profiled_row list" where
  "analyze_chat lib content n_clusters random_state =
     (case parse_whatsapp_chat lib content of
        Inl e \<Rightarrow> Inl e
      | Inr df \<Rightarrow>
          let features_df = extract_all_features df
          in (case assign_clusters lib features_df n_clusters random_state of
                Inl e \<Rightarrow> Inl e
              | Inr clustered \<Rightarrow> Inr (generate_profiles (columns features_df) clustered)))"

text \<open>
  \<open>analyze_chat_streamlit\<close>: the pair of the final report and the cluster summary. The
  order of the columns of the report is not modelled. The sort by influence is modelled as
  a stable one; the theorems about it only use that it sorts.
\<close>

definition analyze_chat_streamlit ::
  "library \<Rightarrow> string \<Rightarrow> nat \<Rightarrow> int \<Rightarrow> (int \<Rightarrow> string option) option
     \<Rightarrow> error + report_row list \<times> summary_row list" where
  "analyze_chat_streamlit lib content n_clusters random_state cluster_names =
     (case parse_whatsapp_chat lib content of
        Inl e \<Rightarrow> Inl e
      | Inr df \<Rightarrow>
          let features_df = extract_all_features df
          in (case assign_clusters lib features_df n_clusters random_state of
                Inl e \<Rightarrow> Inl e
              | Inr clustered \<Rightarrow>
                  let cols = columns features_df;
                      profiled = generate_profiles cols clustered;
                      final_report =
                        map (\<lambda>r. \<lparr>author = author r, cells = cells r, cluster = cluster r,
                                   influence_score = influence_score r,
                                   behavior_profile = behavior_profile r,
                                   cluster_name = get_cluster_name (cluster r) cluster_names\<rparr>)
                          profiled;
                      cluster_summary =
                        map (\<lambda>c. let members = filter (\<lambda>r. cluster r = c) profiled
                                  in \<lparr>summary_cluster = c,
                                      summary_cluster_name = get_cluster_name c cluster_names,
                                      user_count = length members,
                                      avg_messages_per_day = map_option round2 (mean
                                        (map (\<lambda>r. series_get (row_series cols r) ''messages_per_day'' 0)
                                           members)),
                                      avg_influence_score = map_option round2 (mean
                                        (map influence_score members))\<rparr>)
                          (sort (remdups (map cluster profiled)))
                  in Inr (sort_key (\<lambda>r. - influence_score r) final_report, cluster_summary)))"

section \<open>The specification's rules\<close>

text \<open>
  The rule of the specification for the timestamp of a record, in its words: the seven
  layouts in their order, the first that matches, then the lenient day-first parse.
\<close>

definition spec_resolve_timestamp :: "library \<Rightarrow> string \<Rightarrow> to_datetime_result" where
  "spec_resolve_timestamp lib s =
     (if to_datetime_format lib s ''%d/%m/%Y, %I:%M %p'' \<noteq> Raises
      then to_datetime_format lib s ''%d/%m/%Y, %I:%M %p''
      else if to_datetime_format lib s ''%d/%m/%y, %I:%M %p'' \<noteq> Raises
      then to_datetime_format lib s ''%d/%m/%y, %I:%M %p''
      else if to_datetime_format lib s ''%m/%d/%Y, %I:%M %p'' \<noteq> Raises
      then to_datetime_format lib s ''%m/%d/%Y, %I:%M %p''
      else if to_datetime_format lib s ''%m/%d/%y, %I:%M %p'' \<noteq> Raises
      then to_datetime_format lib s ''%m/%d/%y, %I:%M %p''
      else if to_datetime_format lib s ''%Y-%m-%d, %H:%M'' \<noteq> Raises
      then to_datetime_format lib s ''%Y-%m-%d, %H:%M''
      else if to_datetime_format lib s ''%d/%m/%Y, %H:%M'' \<noteq> Raises
      then to_datetime_format lib s ''%d/%m/%Y, %H:%M''
      else if to_datetime_format lib s ''%m/%d/%Y, %H:%M'' \<noteq> Raises
      then to_datetime_format lib s ''%m/%d/%Y, %H:%M''
      else to_datetime_dayfirst lib s)"

text \<open>
  The rule of the specification, in its words, on the messages \<open>S\<close> in chronological
  order: message \<open>i\<close> starts a conversation when it is the first of the transcript or comes
  more than one hour after message \<open>i - 1\<close>; the ratio of an author is the number of the
  author's starting messages over the number of the author's messages.
\<close>

definition spec_is_initiation :: "chat_row list \<Rightarrow> nat \<Rightarrow> bool" where
  "spec_is_initiation S i = (i = 0 \<or> timestamp (S ! i) - timestamp (S ! (i - 1)) > 3600)"

definition spec_initiation_ratio :: "chat_row list \<Rightarrow> string \<Rightarrow> real" where
  "spec_initiation_ratio df u =
     real (length (filter (\<lambda>i. spec_is_initiation (sort_key timestamp df) i
                               \<and> user (sort_key timestamp df ! i) = u) [0..<length df]))
     / real (length (filter (\<lambda>r. user r = u) df))"

section \<open>Properties\<close>

subsection \<open>Influence score\<close>

lemma clamp_form:
  fixes a b c :: real
  shows "min (max (min (a / 5) 1 * 0.4 + (1 - min (b / 24) 1) * 0.3 + min (c * 10) 1 * 0.3) 0) 1
     = min 1 (max 0 (0.4 * min (a / 5) 1 + 0.3 * (1 - min (b / 24) 1) + 0.3 * min (c * 10) 1))"
proof -
  have "min (a / 5) 1 * 0.4 + (1 - min (b / 24) 1) * 0.3 + min (c * 10) 1 * 0.3
      = 0.4 * min (a / 5) 1 + 0.3 * (1 - min (b / 24) 1) + 0.3 * min (c * 10) 1"
    by (simp only: mult.commute)
  then show ?thesis
    by (simp only: min.commute max.commute)
qed

lemma score_unfold:
  "calculate_influence_score features =
     min (max (min (series_get features ''messages_per_day'' 0 / 5) 1 * 0.4
       + (1 - min (series_get features ''avg_response_time_hours'' 24 / 24) 1) * 0.3
       + min (series_get features ''initiation_ratio'' 0 * 10) 1 * 0.3) 0) 1"
  unfolding calculate_influence_score_def Let_def by (rule refl)

text \<open>
  C1: the influence score is the weighted sum (weights 0.4, 0.3, 0.3) of the three capped
  sub-scores, clamped to the unit interval; hence it lies between 0 and 1.
\<close>

theorem influence_score_formula_and_bounds:
  "calculate_influence_score features =
     min 1 (max 0
       (0.4 * min (series_get features ''messages_per_day'' 0 / 5) 1
        + 0.3 * (1 - min (series_get features ''avg_response_time_hours'' 24 / 24) 1)
        + 0.3 * min (series_get features ''initiation_ratio'' 0 * 10) 1))
   \<and> 0 \<le> calculate_influence_score features
   \<and> calculate_influence_score features \<le> 1"
proof (intro conjI)
  show "calculate_influence_score features =
     min 1 (max 0
       (0.4 * min (series_get features ''messages_per_day'' 0 / 5) 1
        + 0.3 * (1 - min (series_get features ''avg_response_time_hours'' 24 / 24) 1)
        + 0.3 * min (series_get features ''initiation_ratio'' 0 * 10) 1))"
    by (simp only: score_unfold clamp_form)
  show "0 \<le> calculate_influence_score features"
    by (simp add: score_unfold)
  show "calculate_influence_score features \<le> 1"
    by (simp add: score_unfold)
qed

subsection \<open>Parser\<close>

lemma try_formats_Cons:
  "try_formats lib s (fmt # fmts) =
     (if to_datetime_format lib s fmt \<noteq> Raises then Some (to_datetime_format lib s fmt)
      else try_formats lib s fmts)"
  by (cases "to_datetime_format lib s fmt") simp_all

lemma try_formats_spec:
  "(case try_formats lib s date_formats of None \<Rightarrow> to_datetime_dayfirst lib s | Some t \<Rightarrow> t)
     = spec_resolve_timestamp lib s"
  unfolding date_formats_def spec_resolve_timestamp_def
  by (simp only: try_formats_Cons try_formats.simps(1) option.case if_distrib [of "case_option _ _"]
        cong: if_cong)

lemma parse_match_spec:
  "parse_match lib (date_str, time_str, usr, msg) =
     (case spec_resolve_timestamp lib (strip (date_str @ '', '' @ time_str)) of
        Timestamp t \<Rightarrow> Some \<lparr>timestamp = t, user = strip usr, message = strip msg\<rparr>
      | NaT \<Rightarrow> None
      | Raises \<Rightarrow> None)"
  by (simp add: parse_match_def Let_def try_formats_spec)

lemma map_filter_drop:
  "f m = None \<Longrightarrow> List.map_filter f (ms1 @ m # ms2) = List.map_filter f (ms1 @ ms2)"
  by (simp add: List.map_filter_def)

lemma strip_ends:
  "strip s = [] \<or> (\<not> isspace (hd (strip s)) \<and> \<not> isspace (last (strip s)))"
proof -
  define a where "a = dropWhile isspace s"
  define b where "b = dropWhile isspace (rev a)"
  have s: "strip s = rev b" by (simp add: strip_def a_def b_def)
  show ?thesis
  proof (cases "b = []")
    case True
    then show ?thesis by (simp add: s)
  next
    case False
    then have hb: "\<not> isspace (hd b)"
      unfolding b_def by (metis hd_dropWhile)
    from False have a: "a \<noteq> []" by (auto simp: b_def)
    then have ha: "\<not> isspace (hd a)"
      unfolding a_def by (metis hd_dropWhile)
    obtain p where p: "rev a = p @ b"
      unfolding b_def by (metis takeWhile_dropWhile_id)
    then have "last b = last (rev a)" using False by simp
    then have "last b = hd a" using a by (simp add: last_rev)
    with ha hb False show ?thesis
      by (simp add: s hd_rev last_rev)
  qed
qed

lemma strip_fixed:
  "t = [] \<or> (\<not> isspace (hd t) \<and> \<not> isspace (last t)) \<Longrightarrow> strip t = t"
proof (cases "t = []")
  case True
  then show ?thesis by (simp add: strip_def)
next
  case False
  assume "t = [] \<or> (\<not> isspace (hd t) \<and> \<not> isspace (last t))"
  with False have h: "\<not> isspace (hd t)" and l: "\<not> isspace (last t)" by simp_all
  from False h have 1: "dropWhile isspace t = t"
    by (cases t) simp_all
  from False l have 2: "dropWhile isspace (rev t) = rev t"
    by (cases "rev t") (simp_all add: last_rev hd_rev [symmetric])
  show ?thesis by (simp add: strip_def 1 2)
qed

lemma strip_strip: "strip (strip s) = strip s"
  using strip_ends strip_fixed by blast

text \<open>
  C2: when no record is parsed, the parser fails with the empty-result error and both
  entry points return this error instead of a table; the parser has no other failure. A
  transcript without a match of the pattern is such a case.
\<close>

theorem empty_parse_aborts_pipeline:
  "parse_whatsapp_chat lib content =
     (if parse_messages lib content = []
      then Inl (ValueError (''No messages found in chat file. Please check the file format. '' @
             ''Supported formats: DD/MM/YYYY or MM/DD/YYYY with AM/PM, or YYYY-MM-DD with 24-hour time.''))
      else Inr (parse_messages lib content))
   \<and> (parse_messages lib content = [] \<longrightarrow>
        analyze_chat_streamlit lib content n_clusters random_state cluster_names =
          Inl (ValueError (''No messages found in chat file. Please check the file format. '' @
             ''Supported formats: DD/MM/YYYY or MM/DD/YYYY with AM/PM, or YYYY-MM-DD with 24-hour time.''))
        \<and> analyze_chat lib content n_clusters random_state =
          Inl (ValueError (''No messages found in chat file. Please check the file format. '' @
             ''Supported formats: DD/MM/YYYY or MM/DD/YYYY with AM/PM, or YYYY-MM-DD with 24-hour time.'')))
   \<and> (findall True content = [] \<longrightarrow> parse_messages lib content = [])"
proof (intro conjI impI)
  show "parse_whatsapp_chat lib content =
     (if parse_messages lib content = []
      then Inl (ValueError (''No messages found in chat file. Please check the file format. '' @
             ''Supported formats: DD/MM/YYYY or MM/DD/YYYY with AM/PM, or YYYY-MM-DD with 24-hour time.''))
      else Inr (parse_messages lib content))"
    by (simp only: parse_whatsapp_chat_def Let_def)
next
  assume "parse_messages lib content = []"
  then have p: "parse_whatsapp_chat lib content =
      Inl (ValueError (''No messages found in chat file. Please check the file format. '' @
             ''Supported formats: DD/MM/YYYY or MM/DD/YYYY with AM/PM, or YYYY-MM-DD with 24-hour time.''))"
    by (simp add: parse_whatsapp_chat_def Let_def)
  show "analyze_chat_streamlit lib content n_clusters random_state cluster_names =
      Inl (ValueError (''No messages found in chat file. Please check the file format. '' @
             ''Supported formats: DD/MM/YYYY or MM/DD/YYYY with AM/PM, or YYYY-MM-DD with 24-hour time.''))"
    by (simp only: analyze_chat_streamlit_def p sum.case)
  show "analyze_chat lib content n_clusters random_state =
      Inl (ValueError (''No messages found in chat file. Please check the file format. '' @
             ''Supported formats: DD/MM/YYYY or MM/DD/YYYY with AM/PM, or YYYY-MM-DD with 24-hour time.''))"
    by (simp only: analyze_chat_def p sum.case)
next
  assume "findall True content = []"
  then show "parse_messages lib content = []"
    by (simp add: parse_messages_def List.map_filter_simps)
qed

theorem empty_parse_aborts_pipeline_witness:
  "parse_messages example_library ''hello world'' = []
   \<and> findall True ''hello world'' = []
   \<and> parse_whatsapp_chat example_library ''hello world'' =
       Inl (ValueError (''No messages found in chat file. Please check the file format. '' @
             ''Supported formats: DD/MM/YYYY or MM/DD/YYYY with AM/PM, or YYYY-MM-DD with 24-hour time.''))
   \<and> analyze_chat_streamlit example_library ''hello world'' 5 42 None =
       Inl (ValueError (''No messages found in chat file. Please check the file format. '' @
             ''Supported formats: DD/MM/YYYY or MM/DD/YYYY with AM/PM, or YYYY-MM-DD with 24-hour time.''))
   \<and> analyze_chat example_library ''hello world'' 5 42 =
       Inl (ValueError (''No messages found in chat file. Please check the file format. '' @
             ''Supported formats: DD/MM/YYYY or MM/DD/YYYY with AM/PM, or YYYY-MM-DD with 24-hour time.''))"
proof -
  have f: "findall True ''hello world'' = []"
    by code_simp
  have m: "parse_messages example_library ''hello world'' = []"
    unfolding parse_messages_def f by (simp add: List.map_filter_simps)
  show ?thesis
    using empty_parse_aborts_pipeline [of example_library "''hello world''" 5 42 None] f m
    by simp
qed

text \<open>
  C7: the timestamp of a matched record is what the first of the seven layouts, in their
  order, gives without raising, and else what the lenient day-first parse gives; a record
  whose timestamp is not resolved is left out and the parse goes on with the other
  records, succeeding when one of them is kept.
\<close>

theorem timestamp_layouts_in_order:
  "parse_match lib (date_str, time_str, usr, msg) =
     (case spec_resolve_timestamp lib (strip (date_str @ '', '' @ time_str)) of
        Timestamp t \<Rightarrow> Some \<lparr>timestamp = t, user = strip usr, message = strip msg\<rparr>
      | NaT \<Rightarrow> None
      | Raises \<Rightarrow> None)
   \<and> (findall True content = ms1 @ m # ms2 \<and> parse_match lib m = None \<longrightarrow>
        parse_messages lib content = List.map_filter (parse_match lib) (ms1 @ ms2)
        \<and> (List.map_filter (parse_match lib) (ms1 @ ms2) \<noteq> [] \<longrightarrow>
             parse_whatsapp_chat lib content = Inr (List.map_filter (parse_match lib) (ms1 @ ms2))))"
proof (intro conjI impI)
  show "parse_match lib (date_str, time_str, usr, msg) =
     (case spec_resolve_timestamp lib (strip (date_str @ '', '' @ time_str)) of
        Timestamp t \<Rightarrow> Some \<lparr>timestamp = t, user = strip usr, message = strip msg\<rparr>
      | NaT \<Rightarrow> None
      | Raises \<Rightarrow> None)"
    by (rule parse_match_spec)
next
  assume a: "findall True content = ms1 @ m # ms2 \<and> parse_match lib m = None"
  then show eq: "parse_messages lib content = List.map_filter (parse_match lib) (ms1 @ ms2)"
    by (simp add: parse_messages_def map_filter_drop)
  assume "List.map_filter (parse_match lib) (ms1 @ ms2) \<noteq> []"
  with eq show "parse_whatsapp_chat lib content = Inr (List.map_filter (parse_match lib) (ms1 @ ms2))"
    by (simp add: parse_whatsapp_chat_def Let_def)
qed

theorem timestamp_layouts_in_order_witness:
  "findall True ''99/99/2024, 10:00 AM - Al: dropped\<newline>13/1/2024, 10:00 AM - Bob: hi'' =
     [] @ (''99/99/2024'', ''10:00 AM'', ''Al'', ''dropped'') # [(''13/1/2024'', ''10:00 AM'', ''Bob'', ''hi'')]
   \<and> spec_resolve_timestamp example_library ''99/99/2024, 10:00 AM'' = NaT
   \<and> parse_match example_library (''99/99/2024'', ''10:00 AM'', ''Al'', ''dropped'') = None
   \<and> parse_match example_library (''13/1/2024'', ''10:00 AM'', ''Bob'', ''hi'')
       = Some \<lparr>timestamp = 1705140000, user = ''Bob'', message = ''hi''\<rparr>
   \<and> parse_whatsapp_chat example_library
       ''99/99/2024, 10:00 AM - Al: dropped\<newline>13/1/2024, 10:00 AM - Bob: hi''
       = Inr [\<lparr>timestamp = 1705140000, user = ''Bob'', message = ''hi''\<rparr>]"
proof -
  have f: "findall True ''99/99/2024, 10:00 AM - Al: dropped\<newline>13/1/2024, 10:00 AM - Bob: hi'' =
     [] @ (''99/99/2024'', ''10:00 AM'', ''Al'', ''dropped'') # [(''13/1/2024'', ''10:00 AM'', ''Bob'', ''hi'')]"
    by code_simp
  have r: "spec_resolve_timestamp example_library ''99/99/2024, 10:00 AM'' = NaT"
    by code_simp
  have d: "parse_match example_library (''99/99/2024'', ''10:00 AM'', ''Al'', ''dropped'') = None"
    by code_simp
  have k: "parse_match example_library (''13/1/2024'', ''10:00 AM'', ''Bob'', ''hi'')
       = Some \<lparr>timestamp = 1705140000, user = ''Bob'', message = ''hi''\<rparr>"
    by code_simp
  have n: "List.map_filter (parse_match example_library)
       ([] @ [(''13/1/2024'', ''10:00 AM'', ''Bob'', ''hi'')])
     = [\<lparr>timestamp = 1705140000, user = ''Bob'', message = ''hi''\<rparr>]"
    by (simp add: List.map_filter_simps k)
  from timestamp_layouts_in_order
         [of example_library "''13/1/2024''" "''10:00 AM''" "''Bob''" "''hi''"
             "''99/99/2024, 10:00 AM - Al: dropped\<newline>13/1/2024, 10:00 AM - Bob: hi''"
             "[]" "(''99/99/2024'', ''10:00 AM'', ''Al'', ''dropped'')"
             "[(''13/1/2024'', ''10:00 AM'', ''Bob'', ''hi'')]"]
  have "parse_whatsapp_chat example_library
       ''99/99/2024, 10:00 AM - Al: dropped\<newline>13/1/2024, 10:00 AM - Bob: hi''
       = Inr [\<lparr>timestamp = 1705140000, user = ''Bob'', message = ''hi''\<rparr>]"
    using f d n by simp
  with f r d k show ?thesis by simp
qed

text \<open>
  C8, as the code has it: a record may have an empty author or an empty text. Here the
  author is empty.
\<close>

theorem empty_author_counterexample:
  "parse_whatsapp_chat example_library ''1/1/2024, 10:00 AM - : hi'' =
     Inr [\<lparr>timestamp = 1704103200, user = [], message = ''hi''\<rparr>]"
  by code_simp

text \<open>
  C8, amended: every record that the parser returns has a timestamp that the layouts or
  the lenient parse resolved for a match of the pattern, and its author and its text are
  the trimmed groups of that match: they have no white space at either end, and may be
  empty.
\<close>

theorem parsed_records_trimmed:
  assumes "parse_whatsapp_chat lib content = Inr df" and "r \<in> set df"
  shows "strip (user r) = user r \<and> strip (message r) = message r
    \<and> (\<exists>date_str time_str usr msg.
         (date_str, time_str, usr, msg) \<in> set (findall True content)
         \<and> spec_resolve_timestamp lib (strip (date_str @ '', '' @ time_str)) = Timestamp (timestamp r)
         \<and> user r = strip usr \<and> message r = strip msg)"
proof -
  from assms have "r \<in> set (parse_messages lib content)"
    by (auto simp: parse_whatsapp_chat_def Let_def split: if_splits)
  then obtain m where m: "m \<in> set (findall True content)" and pm: "parse_match lib m = Some r"
    by (auto simp: parse_messages_def List.map_filter_def)
  obtain date_str time_str usr msg where g: "m = (date_str, time_str, usr, msg)"
    by (cases m) auto
  from pm have
    "spec_resolve_timestamp lib (strip (date_str @ '', '' @ time_str)) = Timestamp (timestamp r)
     \<and> user r = strip usr \<and> message r = strip msg"
    unfolding g parse_match_spec by (auto split: to_datetime_result.splits)
  with m g show ?thesis
    by (auto simp: strip_strip)
qed

theorem parsed_records_trimmed_witness:
  "parse_whatsapp_chat example_library ''1/1/2024, 10:00 AM -  Bob : hi  '' =
     Inr [\<lparr>timestamp = 1704103200, user = ''Bob'', message = ''hi''\<rparr>]
   \<and> \<lparr>timestamp = 1704103200, user = ''Bob'', message = ''hi''\<rparr>
       \<in> set [\<lparr>timestamp = 1704103200, user = ''Bob'', message = ''hi''\<rparr>]
   \<and> strip ''Bob'' = ''Bob'' \<and> strip ''hi'' = ''hi''"
proof -
  have p: "parse_whatsapp_chat example_library ''1/1/2024, 10:00 AM -  Bob : hi  '' =
     Inr [\<lparr>timestamp = 1704103200, user = ''Bob'', message = ''hi''\<rparr>]"
    by code_simp
  have i: "\<lparr>timestamp = 1704103200, user = ''Bob'', message = ''hi''\<rparr>
       \<in> set [\<lparr>timestamp = 1704103200, user = ''Bob'', message = ''hi''\<rparr>]"
    by simp
  from parsed_records_trimmed [OF p i] p show ?thesis by simp
qed

subsection \<open>The feature tables, row by row\<close>

definition group_keys :: "chat_row list \<Rightarrow> string list" where
  "group_keys df = sort (remdups (map user df))"

definition group_of :: "chat_row list \<Rightarrow> string \<Rightarrow> chat_row list" where
  "group_of df u = filter (\<lambda>r. user r = u) df"

lemma groupby_user_keys: "groupby_user df = map (\<lambda>u. (u, group_of df u)) (group_keys df)"
  by (simp add: groupby_user_def group_keys_def group_of_def)

lemma group_keys_set [simp]: "set (group_keys df) = user ` set df"
  by (simp add: group_keys_def)

lemma group_keys_distinct [simp]: "distinct (group_keys df)"
  by (simp add: group_keys_def)

lemma group_keys_sorted [simp]: "sorted (group_keys df)"
  by (simp add: group_keys_def)

lemma group_of_nonempty: "u \<in> user ` set df \<Longrightarrow> group_of df u \<noteq> []"
  by (auto simp: group_of_def filter_empty_conv)

lemma map_of_keyed: "map_of (map (\<lambda>u. (u, f u)) K) u = (if u \<in> set K then Some (f u) else None)"
  by (induction K) auto

lemma groupby_size_keys:
  "groupby_size df = map (\<lambda>u. (u, real (length (group_of df u)))) (group_keys df)"
  by (simp add: groupby_size_def groupby_user_keys)

lemma same_keys_union: "sorted K \<Longrightarrow> distinct K \<Longrightarrow> sort (remdups (K @ K)) = K"
proof -
  assume s: "sorted K" and d: "distinct K"
  have "set xs \<subseteq> set K \<Longrightarrow> remdups (xs @ K) = K" for xs
    using d by (induction xs) auto
  then have "remdups (K @ K) = K" by simp
  then show ?thesis using s by (simp add: sorted_sort_id)
qed

lemma cells_of_keyed:
  "rows fr = map (\<lambda>u. (u, f u)) K \<Longrightarrow> u \<in> set K \<Longrightarrow> cells_of fr u = f u"
  by (simp add: cells_of_def map_of_keyed)

lemma merge_left_rows:
  assumes "rows l = map (\<lambda>u. (u, f u)) K" and "\<And>u. u \<in> set K \<Longrightarrow> cells_of r u = g u"
  shows "rows (merge Left l r) = map (\<lambda>u. (u, f u @ g u)) K"
proof -
  have i: "index l = K" using assms(1) by (simp add: index_def comp_def)
  have "map (\<lambda>k. (k, cells_of l k @ cells_of r k)) K = map (\<lambda>u. (u, f u @ g u)) K"
    using assms cells_of_keyed [OF assms(1)] by (intro map_cong) auto
  then show ?thesis by (simp add: merge_def i)
qed

lemma merge_outer_rows:
  assumes "rows l = map (\<lambda>u. (u, f u)) K" and "rows r = map (\<lambda>u. (u, g u)) K"
    and "sorted K" and "distinct K"
  shows "rows (merge Outer l r) = map (\<lambda>u. (u, f u @ g u)) K"
proof -
  have i: "index l = K" "index r = K" using assms(1,2) by (simp_all add: index_def comp_def)
  have "map (\<lambda>k. (k, cells_of l k @ cells_of r k)) K = map (\<lambda>u. (u, f u @ g u)) K"
    using cells_of_keyed [OF assms(1)] cells_of_keyed [OF assms(2)] by (intro map_cong) auto
  then show ?thesis by (simp add: merge_def i same_keys_union assms)
qed

lemma merge_columns [simp]: "columns (merge h l r) = columns l @ columns r"
  by (simp add: merge_def)

definition length_cells :: "chat_row list \<Rightarrow> string \<Rightarrow> real option list" where
  "length_cells df u =
     [mean (map str_len (group_of df u)), median (map str_len (group_of df u)),
      Some (sum_list (map str_len (group_of df u)))]"

definition messages_per_day_cell :: "chat_row list \<Rightarrow> string \<Rightarrow> real option" where
  "messages_per_day_cell df u =
     mean (map (\<lambda>d. real (length (filter (\<lambda>r. date (timestamp r) = d) (group_of df u))))
             (sort (remdups (map (\<lambda>r. date (timestamp r)) (group_of df u)))))"

definition response_time_cell :: "chat_row list \<Rightarrow> string \<Rightarrow> real option" where
  "response_time_cell df u =
     fillna0 (map_option (\<lambda>s. s / 3600)
       (mean_skipna (map (map_option real_of_int)
          (diff (map timestamp (group_of (sort_key timestamp df) u))))))"

definition night_cell :: "chat_row list \<Rightarrow> string \<Rightarrow> real option" where
  "night_cell df u =
     fillna0 (cell_div
       (map_of (groupby_size
          (filter (\<lambda>r. hour (timestamp r) \<ge> 22 \<or> hour (timestamp r) < 6) df)) u)
       (map_of (groupby_size df) u))"

definition emotional_cells :: "chat_row list \<Rightarrow> string \<Rightarrow> real option list" where
  "emotional_cells df u =
     [mean (map (\<lambda>r. str_count CHR ''!'' (message r)) (group_of df u)),
      mean (map (\<lambda>r. str_count CHR ''?'' (message r)) (group_of df u)),
      mean (map (\<lambda>r. real (count_runs emoji_char False (message r))) (group_of df u)),
      mean (map (\<lambda>r. real (length (filter isupper (message r)))
                        / real (max (length (message r)) 1)) (group_of df u))]"

definition link_cells :: "chat_row list \<Rightarrow> string \<Rightarrow> real option list" where
  "link_cells df u =
     [Some (sum_list (map (\<lambda>r. if re_search url_pattern (message r) then 1 else 0) (group_of df u))),
      mean (map (\<lambda>r. if re_search url_pattern (message r) then 1 else 0) (group_of df u))]"

definition conversation_starts :: "chat_row list \<Rightarrow> chat_row list" where
  "conversation_starts df =
     map fst (filter snd (zip (sort_key timestamp df) (is_conversation_start (sort_key timestamp df))))"

definition initiations_cell :: "chat_row list \<Rightarrow> string \<Rightarrow> real option" where
  "initiations_cell df u =
     (if u \<in> user ` set (conversation_starts df)
      then Some (real (length (group_of (conversation_starts df) u))) else None)"

definition initiation_cells :: "chat_row list \<Rightarrow> string \<Rightarrow> real option list" where
  "initiation_cells df u =
     [Some (real (length (group_of df u))), fillna0 (initiations_cell df u),
      cell_div (fillna0 (initiations_cell df u)) (Some (real (length (group_of df u))))]"

definition feature_cells :: "chat_row list \<Rightarrow> string \<Rightarrow> real option list" where
  "feature_cells df u =
     (((length_cells df u
        @ ([messages_per_day_cell df u] @ [response_time_cell df u]) @ [night_cell df u])
       @ emotional_cells df u) @ link_cells df u) @ initiation_cells df u"

lemma length_rows:
  "rows (calculate_message_length_features df) = map (\<lambda>u. (u, length_cells df u)) (group_keys df)"
  by (simp add: calculate_message_length_features_def groupby_user_keys length_cells_def comp_def)

lemma emotional_rows:
  "rows (calculate_emotional_features df) = map (\<lambda>u. (u, emotional_cells df u)) (group_keys df)"
  by (simp add: calculate_emotional_features_def groupby_user_keys emotional_cells_def comp_def Let_def)

lemma link_rows:
  "rows (calculate_link_sharing_features df) = map (\<lambda>u. (u, link_cells df u)) (group_keys df)"
  by (simp add: calculate_link_sharing_features_def groupby_user_keys link_cells_def comp_def Let_def)

lemma users_sort_key [simp]: "user ` set (sort_key f df) = user ` set df"
  by simp

lemma temporal_rows:
  "rows (calculate_temporal_features df) =
     map (\<lambda>u. (u, ([messages_per_day_cell df u] @ [response_time_cell df u]) @ [night_cell df u]))
       (group_keys df)"
proof -
  let ?mpd = "\<lparr>columns = [''messages_per_day''],
     rows = map (\<lambda>(u, daily_count). (u, [mean daily_count]))
       (map (\<lambda>(u, x). (u, map (\<lambda>d. real (length (filter (\<lambda>r. date (timestamp r) = d) x)))
                                 (sort (remdups (map (\<lambda>r. date (timestamp r)) x)))))
              (groupby_user df))\<rparr>"
  let ?resp = "\<lparr>columns = [''avg_response_time_hours''],
     rows = map (\<lambda>(u, x).
                      (u, [fillna0 (map_option (\<lambda>s. s / 3600)
                             (mean_skipna (map (map_option real_of_int) (diff (map timestamp x)))))]))
                    (groupby_user (sort_key timestamp df))\<rparr>"
  let ?night = "\<lparr>columns = [''night_activity_ratio''],
     rows = map (\<lambda>(u, c). (u, [fillna0 c]))
              (series_div (groupby_size (filter (\<lambda>r. hour (timestamp r) \<ge> 22 \<or> hour (timestamp r) < 6) df))
                 (groupby_size df))\<rparr>"
  have 1: "rows ?mpd = map (\<lambda>u. (u, [messages_per_day_cell df u])) (group_keys df)"
    by (simp add: groupby_user_keys messages_per_day_cell_def comp_def)
  have 2: "cells_of ?resp u = [response_time_cell df u]" if "u \<in> set (group_keys df)" for u
  proof -
    have "rows ?resp = map (\<lambda>u. (u, [response_time_cell df u])) (group_keys (sort_key timestamp df))"
      by (simp add: groupby_user_keys response_time_cell_def comp_def)
    moreover have "u \<in> set (group_keys (sort_key timestamp df))"
      using that by simp
    ultimately show ?thesis by (rule cells_of_keyed)
  qed
  have 3: "cells_of ?night u = [night_cell df u]" if "u \<in> set (group_keys df)" for u
  proof -
    let ?num = "groupby_size (filter (\<lambda>r. hour (timestamp r) \<ge> 22 \<or> hour (timestamp r) < 6) df)"
    let ?K = "sort (remdups (map fst ?num @ map fst (groupby_size df)))"
    have "rows ?night = map (\<lambda>u. (u, [night_cell df u])) ?K"
      by (simp add: series_div_def night_cell_def comp_def)
    moreover have "u \<in> set ?K"
      using that by (simp add: groupby_size_keys comp_def)
    ultimately show ?thesis by (rule cells_of_keyed)
  qed
  have "rows (merge Left (merge Left ?mpd ?resp) ?night) =
     map (\<lambda>u. (u, ([messages_per_day_cell df u] @ [response_time_cell df u]) @ [night_cell df u]))
       (group_keys df)"
    by (rule merge_left_rows [OF merge_left_rows [OF 1 2] 3])
  then show ?thesis
    by (simp add: calculate_temporal_features_def Let_def)
qed

lemma initiation_rows:
  "rows (calculate_conversation_initiation_features df) =
     map (\<lambda>u. (u, initiation_cells df u)) (group_keys df)"
proof -
  let ?init = "\<lparr>columns = [''initiations''],
     rows = map (\<lambda>(u, n). (u, [Some n])) (groupby_size (conversation_starts df))\<rparr>"
  let ?total = "\<lparr>columns = [''total_messages''],
     rows = map (\<lambda>(u, n). (u, [Some n])) (groupby_size df)\<rparr>"
  have 1: "rows ?total = map (\<lambda>u. (u, [Some (real (length (group_of df u)))])) (group_keys df)"
    by (simp add: groupby_size_keys comp_def)
  have 2: "cells_of ?init u = [initiations_cell df u]" for u
    by (simp add: cells_of_def groupby_size_keys comp_def map_of_keyed initiations_cell_def)
  have "rows (merge Left ?total ?init) =
     map (\<lambda>u. (u, [Some (real (length (group_of df u)))] @ [initiations_cell df u])) (group_keys df)"
    by (rule merge_left_rows [OF 1 2])
  then show ?thesis
    by (simp add: calculate_conversation_initiation_features_def Let_def conversation_starts_def
          initiation_cells_def comp_def)
qed

lemma merged_rows:
  "rows (merged_features df) = map (\<lambda>u. (u, feature_cells df u)) (group_keys df)"
  unfolding merged_features_def Let_def feature_cells_def
  by (intro merge_outer_rows length_rows temporal_rows emotional_rows link_rows initiation_rows
        group_keys_sorted group_keys_distinct)

lemma merged_columns:
  "columns (merged_features df) =
    [''avg_length'', ''median_length'', ''total_chars'', ''messages_per_day'',
     ''avg_response_time_hours'', ''night_activity_ratio'',
     ''avg_exclamations'', ''avg_questions'', ''avg_emojis'',
     ''uppercase_ratio'', ''total_links'', ''link_sharing_ratio'',
     ''total_messages'', ''initiations'', ''initiation_ratio'']"
  by (simp add: merged_features_def Let_def calculate_message_length_features_def
        calculate_temporal_features_def calculate_emotional_features_def
        calculate_link_sharing_features_def calculate_conversation_initiation_features_def)

text \<open>The cell of a user and a column in a table (\<open>df.loc[user, col]\<close> on the key).\<close>

definition feature_value :: "'c frame \<Rightarrow> string \<Rightarrow> string \<Rightarrow> 'c option" where
  "feature_value fr u col =
     (case map_of (rows fr) u of None \<Rightarrow> None | Some cs \<Rightarrow> map_of (zip (columns fr) cs) col)"

lemma mean_Some: "xs \<noteq> [] \<Longrightarrow> mean xs = Some (sum_list xs / real (length xs))"
  by (simp add: mean_def)

lemma median_Some: "xs \<noteq> [] \<Longrightarrow> median xs \<noteq> None"
proof -
  assume "xs \<noteq> []"
  then have "length (sort xs) \<noteq> 0" by simp
  then show ?thesis
    unfolding median_def Let_def by (cases "odd (length (sort xs))") (simp_all only: if_False if_True option.distinct not_False_eq_True)
qed

lemma fillna0_Some [simp]: "fillna0 c \<noteq> None"
  by (simp add: fillna0_def split: option.splits)

lemma fillna0_value: "fillna0 c = Some (case c of None \<Rightarrow> 0 | Some x \<Rightarrow> x)"
  by (simp add: fillna0_def split: option.splits)

lemma feature_cells_complete:
  assumes "u \<in> user ` set df"
  shows "None \<notin> set (feature_cells df u)" and "length (feature_cells df u) = 15"
proof -
  have g: "group_of df u \<noteq> []" using assms by (rule group_of_nonempty)
  then have d: "sort (remdups (map (\<lambda>r. date (timestamp r)) (group_of df u))) \<noteq> []"
    by (metis (no_types) length_0_conv length_map length_sort remdups_eq_nil_iff)
  have m: "None \<noteq> median (map str_len (group_of df u))"
    using g median_Some [of "map str_len (group_of df u)"] by (metis map_is_Nil_conv)
  show "None \<notin> set (feature_cells df u)"
    using g d m
    by (simp add: feature_cells_def length_cells_def messages_per_day_cell_def response_time_cell_def
          night_cell_def emotional_cells_def link_cells_def initiation_cells_def mean_Some
          median_Some fillna0_value cell_div_def)
  show "length (feature_cells df u) = 15"
    by (simp add: feature_cells_def length_cells_def emotional_cells_def link_cells_def
          initiation_cells_def)
qed

lemma extract_rows:
  "rows (extract_all_features df) =
     map (\<lambda>u. (u, map (\<lambda>c. case c of None \<Rightarrow> 0 | Some x \<Rightarrow> x) (feature_cells df u))) (group_keys df)"
  by (simp add: extract_all_features_def fillna_frame_def merged_rows comp_def)

lemma extract_columns:
  "columns (extract_all_features df) =
    [''avg_length'', ''median_length'', ''total_chars'', ''messages_per_day'',
     ''avg_response_time_hours'', ''night_activity_ratio'',
     ''avg_exclamations'', ''avg_questions'', ''avg_emojis'',
     ''uppercase_ratio'', ''total_links'', ''link_sharing_ratio'',
     ''total_messages'', ''initiations'', ''initiation_ratio'']"
  by (simp add: extract_all_features_def fillna_frame_def merged_columns)

lemma extract_row_count: "length (rows (extract_all_features df)) = card (user ` set df)"
proof -
  have "length (rows (extract_all_features df)) = length (group_keys df)"
    by (simp add: extract_rows)
  also have "\<dots> = card (set (group_keys df))"
    using distinct_card [OF group_keys_distinct, of df] by (simp only:)
  finally show ?thesis by simp
qed

lemma one_row_per_key:
  "distinct K \<Longrightarrow> u \<in> set K \<Longrightarrow> length (filter (\<lambda>row. fst row = u) (map (\<lambda>u. (u, f u)) K)) = 1"
proof (induction K)
  case Nil
  then show ?case by simp
next
  case (Cons k K)
  show ?case
  proof (cases "k = u")
    case True
    with Cons.prems have "u \<notin> set K" by simp
    then have "filter (\<lambda>row. fst row = u) (map (\<lambda>u. (u, f u)) K) = []"
      by (auto simp: filter_empty_conv)
    with True show ?thesis by simp
  next
    case False
    with Cons show ?thesis by simp
  qed
qed

lemma single_message_response:
  assumes "length (group_of df u) = 1"
  shows "response_time_cell df u = Some 0"
proof -
  have "group_of (sort_key timestamp df) u = sort_key timestamp (group_of df u)"
    by (simp add: group_of_def filter_sort)
  moreover obtain r where "group_of df u = [r]"
    using assms by (cases "group_of df u") auto
  ultimately have "group_of (sort_key timestamp df) u = [r]" by simp
  then show ?thesis
    by (simp add: response_time_cell_def mean_skipna_def List.map_filter_simps mean_def fillna0_def)
qed

lemma no_link_cells:
  assumes "\<forall>r \<in> set df. user r = u \<longrightarrow> \<not> re_search url_pattern (message r)"
    and "u \<in> user ` set df"
  shows "link_cells df u = [Some 0, Some 0]"
proof -
  have eq: "map (\<lambda>r. if re_search url_pattern (message r) then 1 else (0::real)) (group_of df u)
      = map (\<lambda>r. 0) (group_of df u)"
    using assms(1) by (intro map_cong) (auto simp: group_of_def)
  have ne: "group_of df u \<noteq> []" using assms(2) by (rule group_of_nonempty)
  show ?thesis
    unfolding link_cells_def eq using ne by (simp add: mean_Some)
qed

lemma absent_key_zero:
  assumes "k \<in> set (index l)" and "k \<notin> set (index r)"
  shows "map_of (rows (fillna_frame (merge Outer l r))) k =
     Some (map (\<lambda>c. case c of None \<Rightarrow> 0 | Some x \<Rightarrow> x) (cells_of l k) @ replicate (length (columns r)) 0)"
proof -
  have "map_of (rows r) k = None"
    using assms(2) by (simp add: index_def map_of_eq_None_iff)
  then have r: "cells_of r k = replicate (length (columns r)) None"
    by (simp add: cells_of_def)
  have "rows (fillna_frame (merge Outer l r)) =
      map (\<lambda>k. (k, map (\<lambda>c. case c of None \<Rightarrow> 0 | Some x \<Rightarrow> x) (cells_of l k @ cells_of r k)))
        (sort (remdups (index l @ index r)))"
    by (simp add: fillna_frame_def merge_def comp_def)
  then have "map_of (rows (fillna_frame (merge Outer l r))) k =
      Some (map (\<lambda>c. case c of None \<Rightarrow> 0 | Some x \<Rightarrow> x) (cells_of l k @ cells_of r k))"
    using assms(1) by (simp add: map_of_keyed)
  then show ?thesis by (simp add: r)
qed

text \<open>
  C4: the table of the extractor has the fifteen feature columns and, for every author of
  the parsed messages, exactly one row with a number in every column; no cell of that row
  was missing before the final \<open>fillna(0)\<close>; an author with a single message has
  \<open>avg_response_time_hours\<close> 0, an author without links has 0 in the link columns, and a
  user that a merged sub-table lacks gets 0 in the columns of that sub-table.
\<close>

theorem feature_completeness:
  assumes "u \<in> user ` set df"
  shows "columns (extract_all_features df) =
      [''avg_length'', ''median_length'', ''total_chars'', ''messages_per_day'',
       ''avg_response_time_hours'', ''night_activity_ratio'',
       ''avg_exclamations'', ''avg_questions'', ''avg_emojis'',
       ''uppercase_ratio'', ''total_links'', ''link_sharing_ratio'',
       ''total_messages'', ''initiations'', ''initiation_ratio'']
    \<and> length (filter (\<lambda>row. fst row = u) (rows (extract_all_features df))) = 1
    \<and> (\<forall>col \<in> set (columns (extract_all_features df)).
          \<exists>x. feature_value (merged_features df) u col = Some (Some x)
             \<and> feature_value (extract_all_features df) u col = Some x)
    \<and> (length (filter (\<lambda>r. user r = u) df) = 1 \<longrightarrow>
          feature_value (extract_all_features df) u ''avg_response_time_hours'' = Some 0)
    \<and> ((\<forall>r \<in> set df. user r = u \<longrightarrow> \<not> re_search url_pattern (message r)) \<longrightarrow>
          feature_value (extract_all_features df) u ''total_links'' = Some 0
          \<and> feature_value (extract_all_features df) u ''link_sharing_ratio'' = Some 0)
    \<and> (k \<in> set (index l) \<and> k \<notin> set (index r) \<longrightarrow>
          map_of (rows (fillna_frame (merge Outer l r))) k =
            Some (map (\<lambda>c. case c of None \<Rightarrow> 0 | Some x \<Rightarrow> x) (cells_of l k)
                  @ replicate (length (columns r)) 0))"
proof (intro conjI impI ballI)
  let ?fill = "\<lambda>c. case c of None \<Rightarrow> (0::real) | Some x \<Rightarrow> x"
  have key: "u \<in> set (group_keys df)" using assms by simp
  have raw: "map_of (rows (merged_features df)) u = Some (feature_cells df u)"
    using key by (simp add: merged_rows map_of_keyed)
  have fin: "map_of (rows (extract_all_features df)) u = Some (map ?fill (feature_cells df u))"
    using key by (simp add: extract_rows map_of_keyed)
  have len: "length (feature_cells df u) = 15" and some: "None \<notin> set (feature_cells df u)"
    using feature_cells_complete [OF assms] by simp_all
  show "columns (extract_all_features df) =
      [''avg_length'', ''median_length'', ''total_chars'', ''messages_per_day'',
       ''avg_response_time_hours'', ''night_activity_ratio'',
       ''avg_exclamations'', ''avg_questions'', ''avg_emojis'',
       ''uppercase_ratio'', ''total_links'', ''link_sharing_ratio'',
       ''total_messages'', ''initiations'', ''initiation_ratio'']"
    by (rule extract_columns)
  show "length (filter (\<lambda>row. fst row = u) (rows (extract_all_features df))) = 1"
    unfolding extract_rows using key by (intro one_row_per_key) simp_all
  show "\<exists>x. feature_value (merged_features df) u col = Some (Some x)
          \<and> feature_value (extract_all_features df) u col = Some x"
    if "col \<in> set (columns (extract_all_features df))" for col
  proof -
    have cols: "columns (merged_features df) = columns (extract_all_features df)"
      by (simp add: extract_all_features_def fillna_frame_def)
    have l: "length (columns (extract_all_features df)) = length (feature_cells df u)"
      by (simp add: extract_columns len)
    from that obtain i where i: "i < length (columns (extract_all_features df))"
      and c: "columns (extract_all_features df) ! i = col"
      by (auto simp: in_set_conv_nth)
    have dist: "distinct (columns (extract_all_features df))"
      by (simp add: extract_columns)
    have 1: "map_of (zip (columns (extract_all_features df)) (feature_cells df u)) col
        = Some (feature_cells df u ! i)"
      using i c l dist by (metis map_of_zip_nth)
    have 2: "map_of (zip (columns (extract_all_features df)) (map ?fill (feature_cells df u))) col
        = Some (map ?fill (feature_cells df u) ! i)"
      using i c l dist by (metis length_map map_of_zip_nth)
    from i l some have "feature_cells df u ! i \<noteq> None"
      by (metis nth_mem)
    then obtain x where x: "feature_cells df u ! i = Some x" by auto
    with i l have "map ?fill (feature_cells df u) ! i = x" by simp
    with 1 2 x show ?thesis
      by (simp add: feature_value_def raw fin cols)
  qed
  show "feature_value (extract_all_features df) u ''avg_response_time_hours'' = Some 0"
    if "length (filter (\<lambda>r. user r = u) df) = 1"
  proof -
    from that have "response_time_cell df u = Some 0"
      by (intro single_message_response) (simp add: group_of_def)
    then show ?thesis
      by (simp add: feature_value_def fin extract_columns feature_cells_def length_cells_def)
  qed
  assume nl: "\<forall>r \<in> set df. user r = u \<longrightarrow> \<not> re_search url_pattern (message r)"
  have lc: "link_cells df u = [Some 0, Some 0]"
    using nl assms by (rule no_link_cells)
  show "feature_value (extract_all_features df) u ''total_links'' = Some 0"
    by (simp add: feature_value_def fin extract_columns feature_cells_def length_cells_def
          emotional_cells_def lc)
  show "feature_value (extract_all_features df) u ''link_sharing_ratio'' = Some 0"
    by (simp add: feature_value_def fin extract_columns feature_cells_def length_cells_def
          emotional_cells_def lc)
next
  assume "k \<in> set (index l) \<and> k \<notin> set (index r)"
  then show "map_of (rows (fillna_frame (merge Outer l r))) k =
            Some (map (\<lambda>c. case c of None \<Rightarrow> 0 | Some x \<Rightarrow> x) (cells_of l k)
                  @ replicate (length (columns r)) 0)"
    by (intro absent_key_zero) simp_all
qed

theorem feature_completeness_witness:
  "''Bob'' \<in> user ` set [\<lparr>timestamp = 1704103200, user = ''Bob'', message = ''hi''\<rparr>,
                           \<lparr>timestamp = 1704103500, user = ''Al'', message = ''see http://x.org''\<rparr>]
   \<and> length (filter (\<lambda>row. fst row = ''Bob'')
        (rows (extract_all_features
           [\<lparr>timestamp = 1704103200, user = ''Bob'', message = ''hi''\<rparr>,
            \<lparr>timestamp = 1704103500, user = ''Al'', message = ''see http://x.org''\<rparr>]))) = 1
   \<and> feature_value (extract_all_features
        [\<lparr>timestamp = 1704103200, user = ''Bob'', message = ''hi''\<rparr>,
         \<lparr>timestamp = 1704103500, user = ''Al'', message = ''see http://x.org''\<rparr>])
        ''Bob'' ''avg_response_time_hours'' = Some 0
   \<and> feature_value (extract_all_features
        [\<lparr>timestamp = 1704103200, user = ''Bob'', message = ''hi''\<rparr>,
         \<lparr>timestamp = 1704103500, user = ''Al'', message = ''see http://x.org''\<rparr>])
        ''Bob'' ''link_sharing_ratio'' = Some 0
   \<and> map_of (rows (fillna_frame (merge Outer
        \<lparr>columns = [''total_messages''], rows = [(''Bob'', [Some 1])]\<rparr>
        \<lparr>columns = [''initiations''], rows = []\<rparr>))) ''Bob'' = Some [1, 0]"
proof -
  let ?df = "[\<lparr>timestamp = 1704103200, user = ''Bob'', message = ''hi''\<rparr>,
              \<lparr>timestamp = 1704103500, user = ''Al'', message = ''see http://x.org''\<rparr>]"
  let ?l = "\<lparr>columns = [''total_messages''], rows = [(''Bob'', [Some (1::real)])]\<rparr>"
  let ?r = "\<lparr>columns = [''initiations''], rows = ([] :: (string \<times> real option list) list)\<rparr>"
  have h1: "''Bob'' \<in> user ` set ?df" by simp
  have h2: "length (filter (\<lambda>r. user r = ''Bob'') ?df) = 1" by simp
  have s: "\<not> re_search url_pattern ''hi''" by code_simp
  have h3: "\<forall>r \<in> set ?df. user r = ''Bob'' \<longrightarrow> \<not> re_search url_pattern (message r)"
    using s by simp
  have h4: "''Bob'' \<in> set (index ?l) \<and> ''Bob'' \<notin> set (index ?r)"
    by (simp add: index_def)
  have c: "cells_of ?l ''Bob'' = [Some 1]" by (simp add: cells_of_def)
  from feature_completeness [OF h1, of "''Bob''" ?l ?r] h2 h3 h4 c h1
  show ?thesis by simp
qed

subsection \<open>Clustering and the report\<close>

lemma prepare_ok:
  "\<exists>X. prepare_features_for_clustering lib (extract_all_features df) = Inr X
       \<and> length X = card (user ` set df)"
proof -
  have "filter (\<lambda>col. col \<in> set (columns (extract_all_features df))) feature_columns \<noteq> []"
    by (simp add: extract_columns feature_columns_def)
  then show ?thesis
    by (simp add: prepare_features_for_clustering_def Let_def extract_row_count)
qed

lemma assign_clusters_fails:
  assumes "card (user ` set df) < n_clusters"
  shows "assign_clusters lib (extract_all_features df) n_clusters random_state =
     Inl (ValueError ''n_samples should be >= n_clusters'')"
proof -
  obtain X where "prepare_features_for_clustering lib (extract_all_features df) = Inr X"
    and "length X = card (user ` set df)"
    using prepare_ok by blast
  with assms show ?thesis
    by (simp add: assign_clusters_def perform_clustering_def fit_predict_def)
qed

lemma assign_clusters_succeeds:
  assumes "n_clusters \<le> card (user ` set df)"
  shows "\<exists>clustered. assign_clusters lib (extract_all_features df) n_clusters random_state = Inr clustered
     \<and> length clustered = card (user ` set df)"
proof -
  obtain X where "prepare_features_for_clustering lib (extract_all_features df) = Inr X"
    and "length X = card (user ` set df)"
    using prepare_ok by blast
  with assms show ?thesis
    by (simp add: assign_clusters_def perform_clustering_def fit_predict_def extract_row_count)
qed

text \<open>
  C9: when \<open>n_clusters\<close> exceeds the number of distinct authors, clustering fails with an
  error, and both entry points return this error: no table with fewer clusters or rows is
  returned.
\<close>

theorem too_many_clusters_fails:
  assumes "card (user ` set df) < n_clusters"
  shows "assign_clusters lib (extract_all_features df) n_clusters random_state =
      Inl (ValueError ''n_samples should be >= n_clusters'')
    \<and> (parse_whatsapp_chat lib content = Inr df \<longrightarrow>
         analyze_chat_streamlit lib content n_clusters random_state cluster_names =
           Inl (ValueError ''n_samples should be >= n_clusters'')
         \<and> analyze_chat lib content n_clusters random_state =
           Inl (ValueError ''n_samples should be >= n_clusters''))"
proof (intro conjI impI)
  show a: "assign_clusters lib (extract_all_features df) n_clusters random_state =
      Inl (ValueError ''n_samples should be >= n_clusters'')"
    using assms by (rule assign_clusters_fails)
  assume p: "parse_whatsapp_chat lib content = Inr df"
  show "analyze_chat_streamlit lib content n_clusters random_state cluster_names =
           Inl (ValueError ''n_samples should be >= n_clusters'')"
    by (simp add: analyze_chat_streamlit_def p a Let_def)
  show "analyze_chat lib content n_clusters random_state =
           Inl (ValueError ''n_samples should be >= n_clusters'')"
    by (simp add: analyze_chat_def p a Let_def)
qed

theorem too_many_clusters_fails_witness:
  "card (user ` set [\<lparr>timestamp = 1704103200, user = ''Bob'', message = ''hi''\<rparr>]) < (2::nat)
   \<and> parse_whatsapp_chat example_library ''1/1/2024, 10:00 AM - Bob: hi'' =
       Inr [\<lparr>timestamp = 1704103200, user = ''Bob'', message = ''hi''\<rparr>]
   \<and> analyze_chat_streamlit example_library ''1/1/2024, 10:00 AM - Bob: hi'' 2 42 None =
       Inl (ValueError ''n_samples should be >= n_clusters'')
   \<and> analyze_chat example_library ''1/1/2024, 10:00 AM - Bob: hi'' 2 42 =
       Inl (ValueError ''n_samples should be >= n_clusters'')"
proof -
  have h: "card (user ` set [\<lparr>timestamp = 1704103200, user = ''Bob'', message = ''hi''\<rparr>]) < (2::nat)"
    by simp
  have p: "parse_whatsapp_chat example_library ''1/1/2024, 10:00 AM - Bob: hi'' =
       Inr [\<lparr>timestamp = 1704103200, user = ''Bob'', message = ''hi''\<rparr>]"
    by code_simp
  from too_many_clusters_fails [OF h, of example_library 42 "''1/1/2024, 10:00 AM - Bob: hi''" None] h p
  show ?thesis by simp
qed

lemma analyze_streamlit_succeeds:
  assumes "parse_whatsapp_chat lib content = Inr df" and "n_clusters \<le> card (user ` set df)"
  shows "\<exists>final_report cluster_summary.
     analyze_chat_streamlit lib content n_clusters random_state cluster_names
       = Inr (final_report, cluster_summary)"
proof -
  obtain clustered where
    "assign_clusters lib (extract_all_features df) n_clusters random_state = Inr clustered"
    using assign_clusters_succeeds [OF assms(2)] by blast
  with assms(1) show ?thesis
    by (simp add: analyze_chat_streamlit_def Let_def)
qed

text \<open>
  C10: the report that \<open>analyze_chat_streamlit\<close> returns is sorted by influence score,
  highest first; it has the rows of the table that \<open>analyze_chat\<close> returns unsorted.
\<close>

theorem report_sorted_by_influence:
  assumes "analyze_chat_streamlit lib content n_clusters random_state cluster_names
             = Inr (final_report, cluster_summary)"
  shows "sorted_wrt (\<lambda>a b. influence_score a \<ge> influence_score b) final_report
    \<and> (\<exists>profiled. analyze_chat lib content n_clusters random_state = Inr profiled
          \<and> length final_report = length profiled
          \<and> set (map (\<lambda>r. (author r, cluster r, influence_score r, behavior_profile r)) final_report)
              = set (map (\<lambda>r. (author r, cluster r, influence_score r, behavior_profile r)) profiled))"
proof -
  from assms obtain df where p: "parse_whatsapp_chat lib content = Inr df"
    by (auto simp: analyze_chat_streamlit_def split: sum.splits)
  from assms p obtain clustered where
    c: "assign_clusters lib (extract_all_features df) n_clusters random_state = Inr clustered"
    by (auto simp: analyze_chat_streamlit_def Let_def split: sum.splits)
  define profiled where "profiled = generate_profiles (columns (extract_all_features df)) clustered"
  define report where "report =
     map (\<lambda>r. \<lparr>author = author r, cells = cells r, cluster = cluster r,
                influence_score = influence_score r, behavior_profile = behavior_profile r,
                cluster_name = get_cluster_name (cluster r) cluster_names\<rparr>) profiled"
  have fr: "final_report = sort_key (\<lambda>r. - influence_score r) report"
    using assms by (simp add: analyze_chat_streamlit_def p c Let_def profiled_def report_def)
  have "sorted (map (\<lambda>r. - influence_score r) final_report)"
    unfolding fr by (rule sorted_sort_key)
  then have 1: "sorted_wrt (\<lambda>a b. influence_score a \<ge> influence_score b) final_report"
    by (simp add: sorted_map)
  have 2: "analyze_chat lib content n_clusters random_state = Inr profiled"
    by (simp add: analyze_chat_def p c Let_def profiled_def)
  have 3: "length final_report = length profiled"
    by (simp add: fr report_def)
  have "set (map (\<lambda>r. (author r, cluster r, influence_score r, behavior_profile r)) final_report)
      = set (map (\<lambda>r. (author r, cluster r, influence_score r, behavior_profile r)) report)"
    by (simp add: fr)
  also have "\<dots> = set (map (\<lambda>r. (author r, cluster r, influence_score r, behavior_profile r)) profiled)"
    by (simp add: report_def comp_def)
  finally show ?thesis using 1 2 3 by blast
qed

theorem report_sorted_by_influence_witness:
  "(\<exists>final_report cluster_summary.
      analyze_chat_streamlit example_library
        ''1/1/2024, 10:00 AM - Bob: hi\<newline>1/1/2024, 10:05 AM - Al: yo'' 2 42 None
        = Inr (final_report, cluster_summary)
      \<and> length final_report = 2
      \<and> sorted_wrt (\<lambda>a b. influence_score a \<ge> influence_score b) final_report)"
proof -
  let ?content = "''1/1/2024, 10:00 AM - Bob: hi\<newline>1/1/2024, 10:05 AM - Al: yo''"
  let ?df = "[\<lparr>timestamp = 1704103200, user = ''Bob'', message = ''hi''\<rparr>,
              \<lparr>timestamp = 1704103500, user = ''Al'', message = ''yo''\<rparr>]"
  have p: "parse_whatsapp_chat example_library ?content = Inr ?df"
    by code_simp
  have k: "(2::nat) \<le> card (user ` set ?df)" by simp
  obtain final_report cluster_summary where
    a: "analyze_chat_streamlit example_library ?content 2 42 None = Inr (final_report, cluster_summary)"
    using analyze_streamlit_succeeds [OF p k] by blast
  from report_sorted_by_influence [OF a] obtain profiled where
    s: "sorted_wrt (\<lambda>a b. influence_score a \<ge> influence_score b) final_report"
    and q: "analyze_chat example_library ?content 2 42 = Inr profiled"
    and l: "length final_report = length profiled"
    by blast
  obtain clustered where
    "assign_clusters example_library (extract_all_features ?df) 2 42 = Inr clustered"
    and "length clustered = card (user ` set ?df)"
    using assign_clusters_succeeds [OF k] by blast
  then have "length profiled = 2"
    using q by (auto simp: analyze_chat_def p Let_def generate_profiles_def)
  with a s l show ?thesis by auto
qed

subsection \<open>Conversation initiation\<close>

lemma length_diff [simp]: "length (diff xs) = length xs"
  by (cases xs) simp_all

lemma diff_nth:
  "i < length xs \<Longrightarrow> diff xs ! i = (if i = 0 then None else Some (xs ! i - xs ! (i - 1)))"
proof (cases xs)
  case Nil
  assume "i < length xs"
  with Nil show ?thesis by simp
next
  case (Cons x ys)
  assume "i < length xs"
  with Cons show ?thesis by (cases i) simp_all
qed

lemma is_conversation_start_length [simp]:
  "length (is_conversation_start S) = length S"
  by (simp add: is_conversation_start_def)

lemma is_conversation_start_nth:
  "i < length S \<Longrightarrow> is_conversation_start S ! i = spec_is_initiation S i"
  by (auto simp: is_conversation_start_def spec_is_initiation_def diff_nth)

lemma zip_by_index:
  "length xs = length ys \<Longrightarrow> zip xs ys = map (\<lambda>i. (xs ! i, ys ! i)) [0..<length xs]"
  by (rule nth_equalityI) simp_all

lemma count_flagged:
  assumes "length S = length F"
  shows "length (filter P (map fst (filter snd (zip S F))))
       = length (filter (\<lambda>i. F ! i \<and> P (S ! i)) [0..<length S])"
proof -
  have "filter P (map fst (filter snd (zip S F)))
      = map (\<lambda>i. S ! i) (filter (\<lambda>i. P (S ! i)) (filter (\<lambda>i. F ! i) [0..<length S]))"
    by (simp add: zip_by_index [OF assms] filter_map comp_def)
  then show ?thesis
    by (simp add: conj_commute)
qed

lemma starts_count:
  "length (group_of (conversation_starts df) u)
     = length (filter (\<lambda>i. spec_is_initiation (sort_key timestamp df) i
                           \<and> user (sort_key timestamp df ! i) = u) [0..<length df])"
proof -
  let ?S = "sort_key timestamp df"
  have "length (group_of (conversation_starts df) u)
      = length (filter (\<lambda>i. is_conversation_start ?S ! i \<and> user (?S ! i) = u) [0..<length ?S])"
    unfolding group_of_def conversation_starts_def by (rule count_flagged) simp
  also have "filter (\<lambda>i. is_conversation_start ?S ! i \<and> user (?S ! i) = u) [0..<length ?S]
      = filter (\<lambda>i. spec_is_initiation ?S i \<and> user (?S ! i) = u) [0..<length ?S]"
    by (rule filter_cong) (simp_all add: is_conversation_start_nth)
  finally show ?thesis by simp
qed

lemma initiations_cell_value:
  "fillna0 (initiations_cell df u) = Some (real (length (group_of (conversation_starts df) u)))"
proof (cases "u \<in> user ` set (conversation_starts df)")
  case True
  then show ?thesis by (simp add: initiations_cell_def fillna0_def)
next
  case False
  then have "group_of (conversation_starts df) u = []"
    by (auto simp: group_of_def filter_empty_conv)
  with False show ?thesis by (simp add: initiations_cell_def fillna0_def)
qed

text \<open>
  C3: in the rows sorted by time, a message is flagged as a conversation start exactly
  when it is the first of the whole transcript or follows the message before it (of any
  author) by more than one hour; the \<open>initiation_ratio\<close> of an author is the number of the
  author's flagged messages divided by the number of the author's messages.
\<close>

theorem initiation_rule:
  "(\<forall>i < length df. is_conversation_start (sort_key timestamp df) ! i
        = (i = 0 \<or> timestamp (sort_key timestamp df ! i)
                     - timestamp (sort_key timestamp df ! (i - 1)) > 3600))
   \<and> (u \<in> user ` set df \<longrightarrow>
        feature_value (extract_all_features df) u ''initiation_ratio''
          = Some (real (length (filter (\<lambda>i. is_conversation_start (sort_key timestamp df) ! i
                                            \<and> user (sort_key timestamp df ! i) = u) [0..<length df]))
                  / real (length (filter (\<lambda>r. user r = u) df)))
        \<and> feature_value (extract_all_features df) u ''initiation_ratio''
          = Some (spec_initiation_ratio df u))"
proof (intro conjI allI impI)
  let ?S = "sort_key timestamp df"
  fix i assume "i < length df"
  then show "is_conversation_start ?S ! i
        = (i = 0 \<or> timestamp (?S ! i) - timestamp (?S ! (i - 1)) > 3600)"
    by (simp add: is_conversation_start_nth spec_is_initiation_def)
next
  let ?S = "sort_key timestamp df"
  assume u: "u \<in> user ` set df"
  then have key: "u \<in> set (group_keys df)" by simp
  have fin: "map_of (rows (extract_all_features df)) u
      = Some (map (\<lambda>c. case c of None \<Rightarrow> 0 | Some x \<Rightarrow> x) (feature_cells df u))"
    using key by (simp add: extract_rows map_of_keyed)
  have v: "feature_value (extract_all_features df) u ''initiation_ratio''
      = Some (real (length (group_of (conversation_starts df) u)) / real (length (group_of df u)))"
    by (simp add: feature_value_def fin extract_columns feature_cells_def length_cells_def
          emotional_cells_def link_cells_def initiation_cells_def initiations_cell_value cell_div_def)
  show s: "feature_value (extract_all_features df) u ''initiation_ratio''
          = Some (spec_initiation_ratio df u)"
    using starts_count [of df u] by (simp add: v spec_initiation_ratio_def group_of_def)
  have "filter (\<lambda>i. is_conversation_start ?S ! i \<and> user (?S ! i) = u) [0..<length df]
      = filter (\<lambda>i. spec_is_initiation ?S i \<and> user (?S ! i) = u) [0..<length df]"
    by (rule filter_cong) (simp_all add: is_conversation_start_nth)
  then show "feature_value (extract_all_features df) u ''initiation_ratio''
          = Some (real (length (filter (\<lambda>i. is_conversation_start ?S ! i
                                            \<and> user (?S ! i) = u) [0..<length df]))
                  / real (length (filter (\<lambda>r. user r = u) df)))"
    by (simp add: s spec_initiation_ratio_def)
qed

text \<open>
  Two authors: \<open>B\<close> opens the transcript and writes again ten minutes later; \<open>A\<close> writes
  three messages, each more than an hour after the message before.
\<close>

definition initiation_example :: "chat_row list" where
  "initiation_example =
     [\<lparr>timestamp = 8000, user = ''A'', message = ''a1''\<rparr>,
      \<lparr>timestamp = 0, user = ''B'', message = ''b1''\<rparr>,
      \<lparr>timestamp = 16000, user = ''A'', message = ''a2''\<rparr>,
      \<lparr>timestamp = 600, user = ''B'', message = ''b2''\<rparr>,
      \<lparr>timestamp = 24000, user = ''A'', message = ''a3''\<rparr>]"

theorem initiation_rule_witness:
  "''A'' \<in> user ` set initiation_example \<and> ''B'' \<in> user ` set initiation_example
   \<and> (1::nat) < length initiation_example \<and> (2::nat) < length initiation_example
   \<and> is_conversation_start (sort_key timestamp initiation_example) ! 1 = False
   \<and> is_conversation_start (sort_key timestamp initiation_example) ! 2 = True
   \<and> feature_value (extract_all_features initiation_example) ''A'' ''initiation_ratio'' = Some 1
   \<and> feature_value (extract_all_features initiation_example) ''B'' ''initiation_ratio'' = Some (1 / 2)"
proof -
  have a: "''A'' \<in> user ` set initiation_example" and b: "''B'' \<in> user ` set initiation_example"
    by (simp_all add: initiation_example_def)
  have l: "(1::nat) < length initiation_example" "(2::nat) < length initiation_example"
    by (simp_all add: initiation_example_def)
  have f: "is_conversation_start (sort_key timestamp initiation_example) ! 1 = False"
          "is_conversation_start (sort_key timestamp initiation_example) ! 2 = True"
    by code_simp+
  have ca: "length (filter (\<lambda>i. is_conversation_start (sort_key timestamp initiation_example) ! i
              \<and> user (sort_key timestamp initiation_example ! i) = ''A'')
              [0..<length initiation_example]) = 3"
    by code_simp
  have cb: "length (filter (\<lambda>i. is_conversation_start (sort_key timestamp initiation_example) ! i
              \<and> user (sort_key timestamp initiation_example ! i) = ''B'')
              [0..<length initiation_example]) = 1"
    by code_simp
  have na: "length (filter (\<lambda>r. user r = ''A'') initiation_example) = 3"
    and nb: "length (filter (\<lambda>r. user r = ''B'') initiation_example) = 2"
    by (simp_all add: initiation_example_def)
  have "feature_value (extract_all_features initiation_example) ''A'' ''initiation_ratio'' = Some 1"
    using initiation_rule [of initiation_example "''A''"] a by (simp add: ca na)
  moreover have "feature_value (extract_all_features initiation_example) ''B'' ''initiation_ratio''
      = Some (1 / 2)"
    using initiation_rule [of initiation_example "''B''"] b by (simp add: cb nb)
  ultimately show ?thesis
    using a b l f by simp
qed

end
